theory Spec2Isabelle
  imports Main "HOL-Library.Word"
begin

section \<open>Go library functions the gateway calls\<close>

text \<open>
  Go strings and byte slices are modelled as \<open>string\<close> (a list of 8-bit characters).
  The functions below follow the Go standard library on the ASCII range; a byte above
  0x7F (part of a multi-byte rune) is left as it is by the case mappings of this model.
\<close>

definition HasPrefix :: "string \<Rightarrow> string \<Rightarrow> bool" where
  "HasPrefix s p = (take (length p) s = p)"

definition TrimPrefix :: "string \<Rightarrow> string \<Rightarrow> string" where
  "TrimPrefix s p = (if HasPrefix s p then drop (length p) s else s)"

definition isLowerAscii :: "char \<Rightarrow> bool" where
  "isLowerAscii c = (97 \<le> (of_char c :: nat) \<and> (of_char c :: nat) \<le> 122)"

definition isUpperAscii :: "char \<Rightarrow> bool" where
  "isUpperAscii c = (65 \<le> (of_char c :: nat) \<and> (of_char c :: nat) \<le> 90)"

definition isDigitAscii :: "char \<Rightarrow> bool" where
  "isDigitAscii c = (48 \<le> (of_char c :: nat) \<and> (of_char c :: nat) \<le> 57)"

definition toUpperChar :: "char \<Rightarrow> char" where
  "toUpperChar c = (if isLowerAscii c then char_of ((of_char c :: nat) - 32) else c)"

definition toLowerChar :: "char \<Rightarrow> char" where
  "toLowerChar c = (if isUpperAscii c then char_of ((of_char c :: nat) + 32) else c)"

definition ToUpper :: "string \<Rightarrow> string" where
  "ToUpper s = map toUpperChar s"

definition ToLower :: "string \<Rightarrow> string" where
  "ToLower s = map toLowerChar s"

text \<open>
  \<open>strings.Title\<close> maps to title case every letter that follows a separator, starting
  as if a space came before the string. ASCII letters, digits and the underscore are not
  separators; every other ASCII character is.
\<close>

definition isSeparator :: "char \<Rightarrow> bool" where
  "isSeparator c =
     (if (of_char c :: nat) \<le> 127
      then \<not> (isDigitAscii c \<or> isLowerAscii c \<or> isUpperAscii c \<or> c = CHR ''_'')
      else False)"

fun TitleFrom :: "char \<Rightarrow> string \<Rightarrow> string" where
  "TitleFrom prev [] = []"
| "TitleFrom prev (c # cs) =
     (if isSeparator prev then toUpperChar c else c) # TitleFrom c cs"

definition Title :: "string \<Rightarrow> string" where
  "Title s = TitleFrom (CHR '' '') s"

text \<open>\<open>strings.Split\<close> and \<open>strings.ReplaceAll\<close>, for the one-character separators
  and patterns the gateway passes. Splitting the empty string gives one empty piece.\<close>

fun Split :: "string \<Rightarrow> char \<Rightarrow> string list" where
  "Split [] sep = [[]]"
| "Split (c # cs) sep =
     (if c = sep then [] # Split cs sep
      else (case Split cs sep of
              [] \<Rightarrow> [[c]]
            | w # ws \<Rightarrow> (c # w) # ws))"

definition ReplaceAll :: "string \<Rightarrow> char \<Rightarrow> char \<Rightarrow> string" where
  "ReplaceAll s old new = map (\<lambda>c. if c = old then new else c) s"

text \<open>\<open>strings.Join\<close>, used to write down the shape of an HTTP key.\<close>

fun Join :: "string list \<Rightarrow> string \<Rightarrow> string" where
  "Join [] sep = []"
| "Join [w] sep = w"
| "Join (w # v # ws) sep = w @ sep @ Join (v # ws) sep"

section \<open>Constants and library functions taken as given\<close>

text \<open>Attribute keys defined by the NeoFS SDK.\<close>

definition SysAttributePrefix :: string where
  "SysAttributePrefix = ''__NEOFS__''"

definition SysAttributeExpEpoch :: string where
  "SysAttributeExpEpoch = SysAttributePrefix @ ''EXPIRATION_EPOCH''"

definition AttributeFileName :: string where
  "AttributeFileName = ''FileName''"

definition AttributeTimestamp :: string where
  "AttributeTimestamp = ''Timestamp''"

text \<open>
  Package \<open>utils\<close> of the gateway is not among the sources; its constants are a
  parameter of every function that reads them.
\<close>

record utils =
  UserAttributeHeaderPrefix :: string
  SystemAttributePrefix :: string
  ExpirationRFC3339Attr :: string
  ExpirationTimestampAttr :: string
  ExpirationDurationAttr :: string

text \<open>
  Parsers, decoders and the clock of the Go library and the SDK are a parameter too.
  An instant is a number of nanoseconds since the Unix epoch, a \<open>time.Duration\<close> a number
  of nanoseconds; \<open>None\<close> stands for the error result.
\<close>

record BearerToken =
  Issuer :: string

record golib =
  ParseRFC3339 :: "string \<Rightarrow> int option"
  ParseInt :: "string \<Rightarrow> int option"
  ParseDuration :: "string \<Rightarrow> int option"
  Now :: int
  DecodeBase64 :: "string \<Rightarrow> string option"
  UnmarshalJSON :: "string \<Rightarrow> BearerToken option"
  Unmarshal :: "string \<Rightarrow> BearerToken option"
  ParseCID :: "string \<Rightarrow> bool"
  DetectContentType :: "string \<Rightarrow> string"
  QueryUnescape :: "string \<Rightarrow> string"

datatype error = EOF | Err string

datatype panic = SliceBoundsOutOfRange | IntegerDivideByZero | NilDereference

text \<open>\<open>Time.Sub\<close> saturates at the ends of the 64-bit duration range; \<open>time.Unix(sec, 0)\<close>
  is \<open>sec\<close> seconds after the epoch; \<open>Duration.Milliseconds\<close> and \<open>Time.Unix\<close> divide, the
  first truncating towards zero.\<close>

definition maxDuration :: int where
  "maxDuration = 2 ^ 63 - 1"

definition minDuration :: int where
  "minDuration = - (2 ^ 63)"

definition Sub :: "int \<Rightarrow> int \<Rightarrow> int" where
  "Sub t u = (if t - u > maxDuration then maxDuration
              else if t - u < minDuration then minDuration else t - u)"

definition UnixTime :: "int \<Rightarrow> int" where
  "UnixTime sec = sec * 1000000000"

definition Milliseconds :: "int \<Rightarrow> int" where
  "Milliseconds d = (if d < 0 then - ((- d) div 1000000) else d div 1000000)"

definition UnixSeconds :: "int \<Rightarrow> int" where
  "UnixSeconds t = t div 1000000000"

text \<open>\<open>strconv.FormatUint\<close> and \<open>strconv.FormatInt\<close> in base 10.\<close>

definition digitChar :: "nat \<Rightarrow> char" where
  "digitChar n = ''0123456789'' ! n"

function FormatUint :: "nat \<Rightarrow> string" where
  "FormatUint n = (if n < 10 then [digitChar n] else FormatUint (n div 10) @ [digitChar (n mod 10)])"
  by pat_completeness auto
termination
  by (relation "measure id") auto

declare FormatUint.simps [simp del]

definition FormatInt :: "int \<Rightarrow> string" where
  "FormatInt i = (if i < 0 then CHR ''-'' # FormatUint (nat (- i)) else FormatUint (nat i))"

text \<open>\<open>binary.LittleEndian.Uint64\<close> of an 8-byte buffer that \<open>copy\<close> filled from the
  parameter's value: the first 8 bytes of the value, zeros after a shorter one.\<close>

definition copy8 :: "string \<Rightarrow> string" where
  "copy8 v = take 8 v @ replicate (8 - length v) (CHR 0x00)"

fun leValue :: "string \<Rightarrow> nat" where
  "leValue [] = 0"
| "leValue (b # bs) = of_char b + 256 * leValue bs"

definition LittleEndianUint64 :: "string \<Rightarrow> 64 word" where
  "LittleEndianUint64 buf = of_nat (leValue buf)"

section \<open>Upload side: the object creator (neofs.go)\<close>

record Header =
  SystemPrefixLen :: nat
  Key :: string
  Value :: string

record HeadersMeta =
  filename :: bool
  timestamp :: bool
  expiration :: bool

definition MetFilename :: "HeadersMeta \<Rightarrow> HeadersMeta" where
  "MetFilename x = x\<lparr>filename := True\<rparr>"

definition MetTimestamp :: "HeadersMeta \<Rightarrow> HeadersMeta" where
  "MetTimestamp x = x\<lparr>timestamp := True\<rparr>"

definition MetExpiration :: "HeadersMeta \<Rightarrow> HeadersMeta" where
  "MetExpiration x = x\<lparr>expiration := True\<rparr>"

text \<open>A body part of the multipart request, the payload source of the object.\<close>

record Part =
  FormName :: string
  FileName :: string
  PartBody :: string

record NetworkInfo =
  CurrentEpoch :: "64 word"
  MsPerBlock :: int
  NetworkConfig :: "(string \<times> string) list"

record RawObject =
  objContainerID :: "string option"
  objOwnerID :: "string option"
  objAttributes :: "(string \<times> string) list"

text \<open>
  The client pool as the creator sees it: whether a connection is to be had, the
  network-info snapshot (or an error), and the answer to a put (the new object's
  identifier, or an error).
\<close>

record Pool =
  ConnectionErr :: bool
  NetworkInfoRes :: "NetworkInfo option"
  PutObjectRes :: "RawObject \<Rightarrow> string option"

text \<open>
  The creator's state as in the source; \<open>puts\<close> records every object handed to
  \<open>PutObject\<close>, with its payload source and the bearer token option of the call.
\<close>

record objectCreator =
  clientPool :: Pool
  defaultOwner :: string
  bearerTokenSet :: bool
  bearerToken :: BearerToken
  obj :: RawObject
  attrs :: "(string \<times> string) list"
  payload :: "Part option"
  puts :: "(RawObject \<times> Part option \<times> BearerToken option) list"

definition Close :: "objectCreator \<Rightarrow> bool \<Rightarrow> string \<Rightarrow> objectCreator \<times> bool \<times> string" where
  "Close x dstFail dstID =
     (let x1 = x\<lparr>obj := (obj x)\<lparr>objOwnerID :=
                  Some (if bearerTokenSet x then Issuer (bearerToken x) else defaultOwner x)\<rparr>\<rparr>;
          x2 = x1\<lparr>obj := (obj x1)\<lparr>objAttributes := attrs x1\<rparr>\<rparr>;
          opts = (if bearerTokenSet x2 then Some (bearerToken x2) else None);
          x3 = x2\<lparr>puts := puts x2 @ [(obj x2, payload x2, opts)]\<rparr>
      in case PutObjectRes (clientPool x3) (obj x3) of
           None \<Rightarrow> (x3, True, dstID)
         | Some newID \<Rightarrow> (x3, dstFail, newID))"

definition UseBearerToken :: "golib \<Rightarrow> objectCreator \<Rightarrow> bool \<Rightarrow> string \<Rightarrow> objectCreator \<times> bool" where
  "UseBearerToken L x dstFail jBearer =
     (case UnmarshalJSON L jBearer of
        None \<Rightarrow> (x, True)
      | Some t \<Rightarrow> (x\<lparr>bearerToken := t, bearerTokenSet := True\<rparr>, dstFail))"

definition IntoContainer :: "golib \<Rightarrow> objectCreator \<Rightarrow> bool \<Rightarrow> string \<Rightarrow> objectCreator \<times> bool" where
  "IntoContainer L x dstFail sCnr =
     (if \<not> ParseCID L sCnr then (x, True)
      else (x\<lparr>obj := (obj x)\<lparr>objContainerID := Some sCnr\<rparr>\<rparr>, dstFail))"

definition addAttribute :: "objectCreator \<Rightarrow> string \<Rightarrow> string \<Rightarrow> objectCreator" where
  "addAttribute x key val = x\<lparr>attrs := attrs x @ [(key, val)]\<rparr>"

text \<open>The key rewriting of \<open>WriteHeader\<close>; slicing past the end of the key panics.\<close>

definition systemKey :: "Header \<Rightarrow> panic + string" where
  "systemKey hdr =
     (if SystemPrefixLen hdr > 0
      then (if SystemPrefixLen hdr > length (Key hdr) then Inl SliceBoundsOutOfRange
            else Inr (ToUpper (ReplaceAll
                   (SysAttributePrefix @ drop (SystemPrefixLen hdr) (Key hdr))
                   (CHR ''-'') (CHR ''_''))))
      else Inr (Key hdr))"

definition metKey :: "HeadersMeta \<Rightarrow> string \<Rightarrow> HeadersMeta" where
  "metKey meta k =
     (if k = SysAttributeExpEpoch then MetExpiration meta
      else if k = AttributeFileName then MetFilename meta
      else if k = AttributeTimestamp then MetTimestamp meta
      else meta)"

definition WriteHeader ::
  "objectCreator \<Rightarrow> HeadersMeta \<Rightarrow> Header \<Rightarrow> panic + (HeadersMeta \<times> objectCreator)" where
  "WriteHeader x meta hdr =
     (case systemKey hdr of
        Inl p \<Rightarrow> Inl p
      | Inr k \<Rightarrow> Inr (metKey meta k, addAttribute x k (Value hdr)))"

definition FromFile :: "objectCreator \<Rightarrow> string \<Rightarrow> objectCreator" where
  "FromFile x n = addAttribute x AttributeFileName n"

definition CreatedAt :: "objectCreator \<Rightarrow> int \<Rightarrow> objectCreator" where
  "CreatedAt x t = addAttribute x AttributeTimestamp (FormatInt (UnixSeconds t))"

definition ReadPayloadFrom :: "objectCreator \<Rightarrow> Part \<Rightarrow> objectCreator" where
  "ReadPayloadFrom x r = x\<lparr>payload := Some r\<rparr>"

text \<open>
  \<open>ExpireAfter\<close>: the callback handed to \<open>IterateParameters\<close> and the iteration
  itself, which stops at the first parameter on which the callback answers true.
\<close>

record durEpoch =
  found :: bool
  val :: "64 word"

definition epochCallback :: "durEpoch \<Rightarrow> string \<times> string \<Rightarrow> durEpoch" where
  "epochCallback de parameter =
     (let de1 = de\<lparr>found := (fst parameter = ''EpochDuration'')\<rparr>
      in if found de1 then de1\<lparr>val := LittleEndianUint64 (copy8 (snd parameter))\<rparr> else de1)"

fun IterateParameters ::
  "(durEpoch \<Rightarrow> string \<times> string \<Rightarrow> durEpoch) \<Rightarrow> (string \<times> string) list \<Rightarrow> durEpoch \<Rightarrow> durEpoch" where
  "IterateParameters f [] de = de"
| "IterateParameters f (p # ps) de =
     (let de1 = f de p in if found de1 then de1 else IterateParameters f ps de1)"

text \<open>The arithmetic of the attribute's value, on unsigned 64-bit integers: the
  conversions \<open>uint64(...)\<close> keep the low 64 bits, and dividing by zero panics.\<close>

definition expirationEpoch :: "NetworkInfo \<Rightarrow> durEpoch \<Rightarrow> int \<Rightarrow> panic + 64 word" where
  "expirationEpoch netInfo de expDur =
     (if (word_of_int (MsPerBlock netInfo) :: 64 word) = 0 then Inl IntegerDivideByZero
      else Inr (CurrentEpoch netInfo
                + (word_of_int (Milliseconds expDur) * val de) div word_of_int (MsPerBlock netInfo)))"

definition ExpireAfter :: "objectCreator \<Rightarrow> bool \<Rightarrow> int \<Rightarrow> panic + (objectCreator \<times> bool)" where
  "ExpireAfter x dstFail expDur =
     (if ConnectionErr (clientPool x) then Inr (x, True)
      else (case NetworkInfoRes (clientPool x) of
              None \<Rightarrow> Inr (x, True)
            | Some netInfo \<Rightarrow>
                (let de = IterateParameters epochCallback (NetworkConfig netInfo)
                            \<lparr>found = False, val = 0\<rparr>
                 in case expirationEpoch netInfo de expDur of
                      Inl p \<Rightarrow> Inl p
                    | Inr e \<Rightarrow> Inr (addAttribute x SysAttributeExpEpoch (FormatUint (unat e)),
                                   dstFail))))"

text \<open>The value of the \<open>EpochDuration\<close> network parameter as a number: the first
  parameter of that key, zero when there is none.\<close>

definition epochDurationParam :: "NetworkInfo \<Rightarrow> nat" where
  "epochDurationParam netInfo =
     (case map_of (NetworkConfig netInfo) ''EpochDuration'' of
        None \<Rightarrow> 0
      | Some v \<Rightarrow> leValue (copy8 v))"

section \<open>Upload side: the request handler (uploader)\<close>

text \<open>
  What the handler reads of the request: the headers in the order \<open>VisitAll\<close> visits
  them, the \<open>Authorization\<close> header and the \<open>Bearer\<close> cookie as \<open>Peek\<close> and
  \<open>Cookie\<close> return them (\<open>None\<close> for nil), the \<open>cid\<close> user value, and the multipart
  body: the parts \<open>NextPart\<close> returns one after the other and the error it returns after
  the last of them (\<open>EOF\<close> at the end of a well-formed body).
\<close>

record Request =
  Headers :: "(string \<times> string) list"
  Authorization :: "string option"
  BearerCookie :: "string option"
  cidValue :: string
  BodyParts :: "Part list"
  BodyErr :: error

datatype body = NoBody | ErrorText string | CreatedJSON string string

record Response =
  StatusCode :: nat
  Body :: body

record respIDs =
  ObjectID :: string
  ContainerID :: string

record uploadContext =
  request :: Request
  fail :: bool
  err :: "error option"
  resp :: respIDs
  srcPayload :: "Part option"
  creator :: objectCreator
  defaultTimestamp :: bool
  response :: Response

text \<open>
  Package \<open>response\<close> is not among the sources: \<open>response.Error\<close> is taken to answer
  with the given status code and message. Log messages are not modelled.
\<close>

definition failRequest :: "uploadContext \<Rightarrow> string \<Rightarrow> uploadContext" where
  "failRequest ctx msg = ctx\<lparr>response := \<lparr>StatusCode = 400, Body = ErrorText msg\<rparr>\<rparr>"

definition failExpiration :: "uploadContext \<Rightarrow> uploadContext" where
  "failExpiration ctx = failRequest ctx ''problem with expiration header, try expiration in epoch''"

text \<open>The loop of \<open>initPayloadSource\<close> over the parts of the body.\<close>

fun initPayloadSource :: "uploadContext \<Rightarrow> Part list \<Rightarrow> error \<Rightarrow> uploadContext" where
  "initPayloadSource ctx [] e = ctx\<lparr>err := Some e, fail := True\<rparr>"
| "initPayloadSource ctx (part # rest) e =
     (let ctx1 = ctx\<lparr>err := None, fail := False\<rparr>
      in if FormName part = [] \<or> FileName part = [] then initPayloadSource ctx1 rest e
         else initPayloadSource (ctx1\<lparr>srcPayload := Some part\<rparr>) rest e)"

definition calcSystemPrefixLen :: "Header \<Rightarrow> Header" where
  "calcSystemPrefixLen hdr =
     (if Key hdr = ''Neofs-'' \<or> Key hdr = ''NEOFS-'' \<or> Key hdr = ''neofs-''
      then hdr\<lparr>SystemPrefixLen := 6\<rparr>
      else hdr\<lparr>SystemPrefixLen := 0\<rparr>)"

text \<open>
  \<open>processHeaders\<close>. The expiration types are the source's constants 1, 2 and 3 (0 for
  none). \<open>visitState\<close> holds the context together with the function's local variables,
  which the callback passed to \<open>VisitAll\<close> shares between its calls.
\<close>

definition expirationRFC3339 :: nat where
  "expirationRFC3339 = 1"

definition expirationTimestamp :: nat where
  "expirationTimestamp = 2"

definition expirationDuration :: nat where
  "expirationDuration = 3"

record visitState =
  vctx :: uploadContext
  vhdr :: Header
  vmeta :: HeadersMeta
  expTyp :: nat
  expTypCur :: nat
  expDur :: int

definition detectExpiration :: "utils \<Rightarrow> string \<Rightarrow> nat" where
  "detectExpiration U k =
     (if k = ExpirationRFC3339Attr U then expirationRFC3339
      else if k = ExpirationTimestampAttr U then expirationTimestamp
      else if k = ExpirationDurationAttr U then expirationDuration
      else 0)"

text \<open>The inner switch: each form parses \<open>hdr.Value\<close> and, on success, stores the
  duration until expiry; \<open>time.ParseDuration\<close> returns a zero duration with its error.\<close>

definition parseExpiration :: "golib \<Rightarrow> visitState \<Rightarrow> visitState" where
  "parseExpiration L s =
     (if expTyp s = expirationRFC3339 then
        (case ParseRFC3339 L (Value (vhdr s)) of
           None \<Rightarrow> s\<lparr>vctx := (vctx s)\<lparr>err := Some (Err ''time.Parse''), fail := True\<rparr>\<rparr>
         | Some timeExpiration \<Rightarrow>
             s\<lparr>vctx := (vctx s)\<lparr>err := None, fail := False\<rparr>,
               expDur := Sub timeExpiration (Now L)\<rparr>)
      else if expTyp s = expirationTimestamp then
        (case ParseInt L (Value (vhdr s)) of
           None \<Rightarrow> s\<lparr>vctx := (vctx s)\<lparr>err := Some (Err ''strconv.ParseInt''), fail := True\<rparr>\<rparr>
         | Some ts \<Rightarrow>
             s\<lparr>vctx := (vctx s)\<lparr>err := None, fail := False\<rparr>,
               expDur := Sub (UnixTime ts) (Now L)\<rparr>)
      else if expTyp s = expirationDuration then
        (case ParseDuration L (Value (vhdr s)) of
           None \<Rightarrow> s\<lparr>vctx := (vctx s)\<lparr>err := Some (Err ''time.ParseDuration''), fail := True\<rparr>,
                     expDur := 0\<rparr>
         | Some d \<Rightarrow> s\<lparr>vctx := (vctx s)\<lparr>err := None, fail := False\<rparr>, expDur := d\<rparr>)
      else s)"

definition checkFuture :: "visitState \<Rightarrow> visitState" where
  "checkFuture s =
     (if \<not> fail (vctx s) \<and> expDur s \<le> 0
      then s\<lparr>vctx := (vctx s)\<lparr>fail := True,
                 err := Some (Err ''expiration time not from the future'')\<rparr>\<rparr>
      else s)"

definition catchFailure :: "visitState \<Rightarrow> visitState" where
  "catchFailure s = (if fail (vctx s) then s\<lparr>vctx := failExpiration (vctx s)\<rparr> else s)"

definition visit :: "utils \<Rightarrow> golib \<Rightarrow> visitState \<Rightarrow> string \<Rightarrow> string \<Rightarrow> panic + visitState" where
  "visit U L s k v =
     (if fail (vctx s) then Inr s
      else if length v = 0 then Inr s
      else
        (let s1 = s\<lparr>vhdr := (vhdr s)\<lparr>Key := TrimPrefix k (UserAttributeHeaderPrefix U)\<rparr>\<rparr>
         in if length (Key (vhdr s1)) = length k then Inr s1
            else
              (let s2 = s1\<lparr>expTypCur := detectExpiration U (Key (vhdr s1))\<rparr>
               in if expTypCur s2 > 0 then
                    (if \<not> expiration (vmeta s2) \<and> expTypCur s2 \<ge> expTyp s2
                     then Inr (catchFailure (checkFuture
                                 (parseExpiration L (s2\<lparr>expTyp := expTypCur s2\<rparr>))))
                     else Inr s2)
                  else
                    (let s3 = s2\<lparr>vhdr := calcSystemPrefixLen (vhdr s2)\<rparr>;
                         s4 = s3\<lparr>vhdr := (vhdr s3)\<lparr>Value := v\<rparr>\<rparr>
                     in case WriteHeader (creator (vctx s4)) (vmeta s4) (vhdr s4) of
                          Inl p \<Rightarrow> Inl p
                        | Inr (meta', x') \<Rightarrow>
                            Inr (s4\<lparr>vmeta := meta',
                                    vctx := (vctx s4)\<lparr>creator := x'\<rparr>\<rparr>)))))"

fun VisitAll ::
  "(visitState \<Rightarrow> string \<Rightarrow> string \<Rightarrow> panic + visitState) \<Rightarrow> (string \<times> string) list
   \<Rightarrow> visitState \<Rightarrow> panic + visitState" where
  "VisitAll f [] s = Inr s"
| "VisitAll f ((k, v) # hs) s =
     (case f s k v of Inl p \<Rightarrow> Inl p | Inr s' \<Rightarrow> VisitAll f hs s')"

definition initialVisit :: "uploadContext \<Rightarrow> visitState" where
  "initialVisit ctx =
     \<lparr>vctx = ctx, vhdr = \<lparr>SystemPrefixLen = 0, Key = [], Value = []\<rparr>,
      vmeta = \<lparr>filename = False, timestamp = False, expiration = False\<rparr>,
      expTyp = 0, expTypCur = 0, expDur = 0\<rparr>"

text \<open>The part of \<open>processHeaders\<close> after the iteration; reading the file name of a
  payload source that was never bound dereferences nil.\<close>

definition writeDefaults :: "golib \<Rightarrow> visitState \<Rightarrow> uploadContext \<Rightarrow> panic + uploadContext" where
  "writeDefaults L s ctx =
     (let ctx1 = (if \<not> timestamp (vmeta s) \<and> defaultTimestamp ctx
                  then ctx\<lparr>creator := CreatedAt (creator ctx) (Now L)\<rparr> else ctx)
      in if \<not> filename (vmeta s)
         then (case srcPayload ctx1 of
                 None \<Rightarrow> Inl NilDereference
               | Some part \<Rightarrow> Inr (ctx1\<lparr>creator := FromFile (creator ctx1) (FileName part)\<rparr>))
         else Inr ctx1)"

definition writeRemaining :: "golib \<Rightarrow> visitState \<Rightarrow> panic + uploadContext" where
  "writeRemaining L s =
     (if \<not> fail (vctx s) then
        (if \<not> expiration (vmeta s) then
           (case ExpireAfter (creator (vctx s)) (fail (vctx s)) (expDur s) of
              Inl p \<Rightarrow> Inl p
            | Inr (x', f') \<Rightarrow>
                (let ctx1 = (vctx s)\<lparr>creator := x', fail := f'\<rparr>
                 in if fail ctx1 then Inr (failExpiration ctx1)
                    else writeDefaults L s ctx1))
         else writeDefaults L s (vctx s))
      else Inr (vctx s))"

text \<open>\<open>processHeaders\<close> on the headers \<open>VisitAll\<close> iterates over, and on those of the
  context's request.\<close>

definition processHeadersOver ::
  "utils \<Rightarrow> golib \<Rightarrow> (string \<times> string) list \<Rightarrow> uploadContext \<Rightarrow> panic + uploadContext" where
  "processHeadersOver U L hs ctx =
     (case VisitAll (visit U L) hs (initialVisit ctx) of
        Inl p \<Rightarrow> Inl p
      | Inr s \<Rightarrow> writeRemaining L s)"

definition processHeaders :: "utils \<Rightarrow> golib \<Rightarrow> uploadContext \<Rightarrow> panic + uploadContext" where
  "processHeaders U L ctx = processHeadersOver U L (Headers (request ctx)) ctx"

section \<open>Bearer tokens (tokens)\<close>

definition bearerTokenHdr :: string where
  "bearerTokenHdr = ''Bearer''"

text \<open>\<open>base64.StdEncoding.DecodedLen\<close>: the size of the buffer \<open>ReadBearer\<close> allocates.
  The buffer keeps that size, so a decoded token shorter than it is followed by zero
  bytes. After a decoding error the callers drop the buffer; its content is not
  modelled then.\<close>

definition DecodedLen :: "nat \<Rightarrow> nat" where
  "DecodedLen n = n div 4 * 3"

definition decodeBuffer :: "string \<Rightarrow> string \<Rightarrow> string" where
  "decodeBuffer b64 decoded =
     decoded @ replicate (DecodedLen (length b64) - length decoded) (CHR 0x00)"

definition b64Bearer :: "Request \<Rightarrow> string option" where
  "b64Bearer hdr =
     (case Authorization hdr of
        None \<Rightarrow> BearerCookie hdr
      | Some hdrAuth \<Rightarrow>
          if HasPrefix hdrAuth (bearerTokenHdr @ '' '')
          then Some (TrimPrefix hdrAuth (bearerTokenHdr @ '' ''))
          else BearerCookie hdr)"

definition ReadBearer :: "golib \<Rightarrow> string \<Rightarrow> Request \<Rightarrow> int \<times> string" where
  "ReadBearer L dst hdr =
     (case b64Bearer hdr of
        None \<Rightarrow> (0, dst)
      | Some b \<Rightarrow>
          (case DecodeBase64 L b of
             None \<Rightarrow> (- 1, replicate (DecodedLen (length b)) (CHR 0x00))
           | Some decoded \<Rightarrow> (1, decodeBuffer b decoded)))"

definition BearerTokenFromHeader :: "Request \<Rightarrow> string option" where
  "BearerTokenFromHeader h =
     (case Authorization h of
        None \<Rightarrow> None
      | Some auth \<Rightarrow>
          if \<not> HasPrefix auth bearerTokenHdr then None
          else (let auth1 = TrimPrefix auth (bearerTokenHdr @ '' '')
                in if length auth1 = 0 then None else Some auth1))"

definition BearerTokenFromCookie :: "Request \<Rightarrow> string option" where
  "BearerTokenFromCookie h =
     (case BearerCookie h of
        None \<Rightarrow> None
      | Some auth \<Rightarrow> if length auth = 0 then None else Some auth)"

text \<open>The loop of \<open>fetchBearerToken\<close> over the two sources; the result is the pair of
  the token and the error that the function returns. (The token is allocated before
  the loop, so the branch for a nil token is never taken.)\<close>

fun fetchFrom ::
  "golib \<Rightarrow> (Request \<Rightarrow> string option) list \<Rightarrow> Request \<Rightarrow> error option
   \<Rightarrow> BearerToken option \<times> error option" where
  "fetchFrom L [] h lastErr = (None, lastErr)"
| "fetchFrom L (parse # rest) h lastErr =
     (case parse h of
        None \<Rightarrow> fetchFrom L rest h lastErr
      | Some buf \<Rightarrow>
          (case DecodeBase64 L buf of
             None \<Rightarrow> fetchFrom L rest h (Some (Err ''can't base64-decode bearer token''))
           | Some data \<Rightarrow>
               (case Unmarshal L data of
                  None \<Rightarrow> fetchFrom L rest h (Some (Err ''can't unmarshal bearer token''))
                | Some tkn \<Rightarrow> (Some tkn, None))))"

definition fetchBearerToken :: "golib \<Rightarrow> Request option \<Rightarrow> BearerToken option \<times> error option" where
  "fetchBearerToken L ctx =
     (case ctx of
        None \<Rightarrow> (None, None)
      | Some c \<Rightarrow> fetchFrom L [BearerTokenFromHeader, BearerTokenFromCookie] c None)"

text \<open>\<open>StoreBearerToken\<close> returns the error of \<open>fetchBearerToken\<close>, on which its callers
  answer 400; otherwise it stores the token (or nil) in the request context.\<close>

definition StoreBearerToken :: "golib \<Rightarrow> Request \<Rightarrow> error + BearerToken option" where
  "StoreBearerToken L c =
     (case fetchBearerToken L (Some c) of
        (tkn, Some e) \<Rightarrow> Inl e
      | (tkn, None) \<Rightarrow> Inr tkn)"

section \<open>Upload side: the handler\<close>

record neofs =
  nfsClientPool :: Pool
  nfsDefaultOwner :: string

record Uploader =
  neoFS :: neofs
  uplDefaultTimestamp :: bool

definition InitObjectCreation :: "neofs \<Rightarrow> objectCreator" where
  "InitObjectCreation x =
     \<lparr>clientPool = nfsClientPool x, defaultOwner = nfsDefaultOwner x,
      bearerTokenSet = False, bearerToken = \<lparr>Issuer = []\<rparr>,
      obj = \<lparr>objContainerID = None, objOwnerID = None, objAttributes = []\<rparr>,
      attrs = [], payload = None, puts = []\<rparr>"

text \<open>\<open>Upload\<close> from the statement that defers closing the payload source to its end:
  providing the payload, writing the headers, storing the object, answering. Deferring
  the call of \<open>Close\<close> on a payload source that is nil panics. Encoding the two
  identifiers as JSON into the response is taken not to fail; draining the rest of the
  body leaves no trace in this model.\<close>

definition storeUpload :: "utils \<Rightarrow> golib \<Rightarrow> uploadContext \<Rightarrow> panic + uploadContext" where
  "storeUpload U L ctx =
     (case srcPayload ctx of
        None \<Rightarrow> Inl NilDereference
      | Some part \<Rightarrow>
          (case processHeaders U L (ctx\<lparr>creator := ReadPayloadFrom (creator ctx) part\<rparr>) of
             Inl p \<Rightarrow> Inl p
           | Inr ctx2 \<Rightarrow>
               (case Close (creator ctx2) (fail ctx2) (ObjectID (resp ctx2)) of
                  (x', f', id') \<Rightarrow>
                    (let ctx3 = ctx2\<lparr>creator := x', fail := f',
                                     resp := (resp ctx2)\<lparr>ObjectID := id'\<rparr>\<rparr>
                     in if fail ctx3 then Inr (failRequest ctx3 ''store file in NeoFS failed'')
                        else Inr (ctx3\<lparr>err := None, fail := False,
                               response := \<lparr>StatusCode = 200,
                                 Body = CreatedJSON (ObjectID (resp ctx3))
                                          (ContainerID (resp ctx3))\<rparr>\<rparr>)))))"

definition bindPayload :: "utils \<Rightarrow> golib \<Rightarrow> uploadContext \<Rightarrow> panic + uploadContext" where
  "bindPayload U L ctx =
     (let ctx1 = initPayloadSource ctx (BodyParts (request ctx)) (BodyErr (request ctx))
      in if fail ctx1 then Inr (failRequest ctx1 ''receive multipart/form'')
         else storeUpload U L ctx1)"

definition initContext :: "Uploader \<Rightarrow> Request \<Rightarrow> uploadContext" where
  "initContext x c =
     \<lparr>request = c, fail = False, err = None,
      resp = \<lparr>ObjectID = [], ContainerID = []\<rparr>,
      srcPayload = None, creator = InitObjectCreation (neoFS x),
      defaultTimestamp = uplDefaultTimestamp x,
      response = \<lparr>StatusCode = 200, Body = NoBody\<rparr>\<rparr>"

definition Upload :: "utils \<Rightarrow> golib \<Rightarrow> Uploader \<Rightarrow> Request \<Rightarrow> panic + uploadContext" where
  "Upload U L x c =
     (let ctx0 = initContext x c;
          ctx1 = ctx0\<lparr>resp := (resp ctx0)\<lparr>ContainerID := cidValue c\<rparr>\<rparr>
      in case IntoContainer L (creator ctx1) (fail ctx1) (ContainerID (resp ctx1)) of
           (x1, f1) \<Rightarrow>
             (let ctx2 = ctx1\<lparr>creator := x1, fail := f1\<rparr>
              in if fail ctx2 then Inr (failRequest ctx2 ''incorrect container ID'')
                 else
                   (case ReadBearer L [] c of
                      (code, encodedBearer) \<Rightarrow>
                        if code = - 1
                        then Inr (failRequest ctx2 ''incorrect bearer token header'')
                        else if code = 1 then
                          (case UseBearerToken L (creator ctx2) (fail ctx2) encodedBearer of
                             (x2, f2) \<Rightarrow>
                               (let ctx3 = ctx2\<lparr>creator := x2, fail := f2\<rparr>
                                in if fail ctx3
                                   then Inr (failRequest ctx3 ''incorrect bearer token JSON'')
                                   else bindPayload U L ctx3))
                        else bindPayload U L ctx2)))"

section \<open>Download side: the content-type detector\<close>

text \<open>
  The reader a detector wraps is a script of the \<open>Read\<close> calls still to come: each
  entry holds the bytes one call delivers and the error it returns with the last of them
  (\<open>None\<close> for nil). A call with a buffer shorter than the entry delivers the first bytes
  and leaves the others to the following calls; a reader at the end of its script
  returns no bytes and \<open>EOF\<close>.
\<close>

type_synonym script = "(string \<times> error option) list"

fun scriptRead :: "script \<Rightarrow> nat \<Rightarrow> string \<times> error option \<times> script" where
  "scriptRead [] n = ([], Some EOF, [])"
| "scriptRead ((bs, e) # rest) n =
     (if length bs \<le> n then (bs, e, rest)
      else (take n bs, None, (drop n bs, e) # rest))"

record errReader =
  erData :: string
  erErr :: "error option"
  erOffset :: nat

definition newReader :: "string \<Rightarrow> error option \<Rightarrow> errReader" where
  "newReader d e = \<lparr>erData = d, erErr = e, erOffset = 0\<rparr>"

definition errRead :: "errReader \<Rightarrow> nat \<Rightarrow> string \<times> error option \<times> errReader" where
  "errRead r n =
     (if erOffset r \<ge> length (erData r) then ([], Some EOF, r)
      else
        (let bs = take n (drop (erOffset r) (erData r));
             r1 = r\<lparr>erOffset := erOffset r + length bs\<rparr>
         in if erOffset r1 \<ge> length (erData r1) then (bs, erErr r1, r1)
            else (bs, None, r1)))"

definition contentTypeDetectSize :: nat where
  "contentTypeDetectSize = 512"

record detector =
  Reader :: script
  detErr :: "error option"
  contentType :: string
  detDone :: bool
  detData :: string

definition newDetector :: detector where
  "newDetector =
     \<lparr>Reader = [], detErr = None, contentType = [], detDone = False,
      detData = replicate contentTypeDetectSize (CHR 0x00)\<rparr>"

definition SetReader :: "detector \<Rightarrow> script \<Rightarrow> detector" where
  "SetReader d reader = d\<lparr>Reader := reader\<rparr>"

text \<open>\<open>Detect\<close> reads once into the buffer; the bytes read overwrite its beginning.\<close>

definition Detect :: "golib \<Rightarrow> detector \<Rightarrow> detector" where
  "Detect L d =
     (case scriptRead (Reader d) (length (detData d)) of
        (bs, e, rest) \<Rightarrow>
          (let d1 = d\<lparr>Reader := rest, detData := bs @ drop (length bs) (detData d)\<rparr>
           in if e \<noteq> None \<and> e \<noteq> Some EOF then d1\<lparr>detErr := e\<rparr>
              else
                (let d2 = d1\<lparr>detData := take (length bs) (detData d1)\<rparr>
                 in d2\<lparr>contentType := DetectContentType L (detData d2), detDone := True\<rparr>)))"

text \<open>\<open>io.MultiReader\<close> over the two readers of \<open>detector.MultiReader\<close>, and its
  \<open>Read\<close>: a reader that returns \<open>EOF\<close> is dropped, and the call goes on to the next
  one when it delivered nothing.\<close>

datatype reader = ErrR errReader | SrcR script

fun readerRead :: "reader \<Rightarrow> nat \<Rightarrow> string \<times> error option \<times> reader" where
  "readerRead (ErrR r) n = (case errRead r n of (bs, e, r') \<Rightarrow> (bs, e, ErrR r'))"
| "readerRead (SrcR r) n = (case scriptRead r n of (bs, e, r') \<Rightarrow> (bs, e, SrcR r'))"

fun multiRead :: "reader list \<Rightarrow> nat \<Rightarrow> string \<times> error option \<times> reader list" where
  "multiRead [] n = ([], Some EOF, [])"
| "multiRead (r # rs) n =
     (case readerRead r n of
        (bs, e, r') \<Rightarrow>
          (let readers = (if e = Some EOF then rs else r' # rs)
           in if length bs > 0 \<or> e \<noteq> Some EOF
              then (bs, (if e = Some EOF \<and> length readers > 0 then None else e), readers)
              else multiRead rs n))"

definition MultiReader :: "detector \<Rightarrow> reader list" where
  "MultiReader d = [ErrR (newReader (detData d) (detErr d)), SrcR (Reader d)]"

text \<open>
  The consumer of a stream (\<open>io.ReadAll\<close>, \<open>io.Copy\<close>): it reads with a buffer of \<open>n\<close>
  bytes until a call returns an error, and reports \<open>EOF\<close> as success. It need not
  return on every reader, so its result is an option.
\<close>

partial_function (option) readAll ::
  "('r \<Rightarrow> nat \<Rightarrow> string \<times> error option \<times> 'r) \<Rightarrow> nat \<Rightarrow> 'r \<Rightarrow> string
   \<Rightarrow> (string \<times> error option) option" where
  "readAll rd n r acc =
     (case rd r n of
        (bs, Some e, r') \<Rightarrow> Some (acc @ bs, if e = EOF then None else Some e)
      | (bs, None, r') \<Rightarrow> readAll rd n r' (acc @ bs))"

text \<open>The bytes of a script, and the scripts of a stream that ends without a read error:
  no call returns an error but the last, which may return \<open>EOF\<close>.\<close>

definition payloadOf :: "script \<Rightarrow> string" where
  "payloadOf cs = concat (map fst cs)"

fun cleanStream :: "script \<Rightarrow> bool" where
  "cleanStream [] = True"
| "cleanStream [(bs, e)] = (e = None \<or> e = Some EOF)"
| "cleanStream ((bs, e) # c # cs) = (e = None \<and> cleanStream (c # cs))"

section \<open>Download side: the zip archive\<close>

record Object =
  objID :: string
  objOwner :: string
  Attributes :: "(string \<times> string) list"
  Payload :: string

text \<open>
  The zip writer is the list of the operations that succeeded on it, in order. The
  downloader's environment says what \<open>GetObject\<close> returns for an address and which
  operation on the writer fails, given the operations before it.
\<close>

datatype compression = Store | Deflate

datatype zipOp = CreateHeader string compression | Copy string | Flush | CloseWriter

record Downloader =
  ZipCompression :: bool
  GetObject :: "string \<Rightarrow> string \<Rightarrow> error + Object"
  zipError :: "zipOp list \<Rightarrow> zipOp \<Rightarrow> error option"

fun getFilenameFrom :: "(string \<times> string) list \<Rightarrow> string" where
  "getFilenameFrom [] = []"
| "getFilenameFrom (attr # rest) =
     (if fst attr = AttributeFileName then snd attr else getFilenameFrom rest)"

definition getFilename :: "Object \<Rightarrow> string" where
  "getFilename ob = getFilenameFrom (Attributes ob)"

definition zipDo :: "Downloader \<Rightarrow> zipOp list \<Rightarrow> zipOp \<Rightarrow> error option \<times> zipOp list" where
  "zipDo d zw op = (case zipError d zw op of Some e \<Rightarrow> (Some e, zw) | None \<Rightarrow> (None, zw @ [op]))"

definition compressionOf :: "Downloader \<Rightarrow> compression" where
  "compressionOf d = (if ZipCompression d then Deflate else Store)"

text \<open>The loop of \<open>streamFiles\<close>: the error it returns with, if any, and the writer.
  The payload reader is the one \<open>GetObject\<close> hands to the handler; the modification
  time of the header (the clock) is left out.\<close>

fun writeEntries ::
  "Downloader \<Rightarrow> string \<Rightarrow> string list \<Rightarrow> zipOp list \<Rightarrow> error option \<times> zipOp list" where
  "writeEntries d cnr [] zw = (None, zw)"
| "writeEntries d cnr (i # ids) zw =
     (case GetObject d cnr i of
        Inl e \<Rightarrow> (Some e, zw)
      | Inr ob \<Rightarrow>
          (case zipDo d zw (CreateHeader (getFilename ob) (compressionOf d)) of
             (Some e, zw1) \<Rightarrow> (Some e, zw1)
           | (None, zw1) \<Rightarrow>
               (case zipDo d zw1 (Copy (Payload ob)) of
                  (Some e, zw2) \<Rightarrow> (Some e, zw2)
                | (None, zw2) \<Rightarrow>
                    (case zipDo d zw2 Flush of
                       (Some e, zw3) \<Rightarrow> (Some e, zw3)
                     | (None, zw3) \<Rightarrow> writeEntries d cnr ids zw3))))"

definition streamFiles :: "Downloader \<Rightarrow> string \<Rightarrow> string list \<Rightarrow> error option \<times> zipOp list" where
  "streamFiles d cnr ids =
     (case writeEntries d cnr ids [] of
        (Some e, zw) \<Rightarrow> (Some e, zw)
      | (None, zw) \<Rightarrow> zipDo d zw CloseWriter)"

text \<open>The entries of an archive: the names its headers were created with, in order.\<close>

fun entryNames :: "zipOp list \<Rightarrow> string list" where
  "entryNames [] = []"
| "entryNames (CreateHeader n m # ops) = n # entryNames ops"
| "entryNames (operation # ops) = entryNames ops"

text \<open>The operations one object adds to the archive.\<close>

definition entryOps :: "Downloader \<Rightarrow> Object \<Rightarrow> zipOp list" where
  "entryOps d ob = [CreateHeader (getFilename ob) (compressionOf d), Copy (Payload ob), Flush]"

section \<open>Download side: reading one object\<close>

definition byID :: nat where
  "byID = 1"

definition byAttr :: nat where
  "byAttr = 2"

definition byFile :: nat where
  "byFile = 3"

text \<open>The response headers of the request context a \<open>ResRead\<close> points to.\<close>

type_synonym headers = "string \<Rightarrow> string option"

record ResRead =
  head :: bool
  selector :: nat
  status :: nat
  reqCtx :: headers


definition FailCommonAPI :: "ResRead \<Rightarrow> ResRead" where
  "FailCommonAPI x = x\<lparr>status := 2\<rparr>"


definition WaitingOwner :: "ResRead \<Rightarrow> bool" where
  "WaitingOwner x = (selector x \<noteq> byFile)"


text \<open>
  The object reader is an interface; what its methods answer is a parameter of \<open>read\<close>.
  \<open>ReadNextOf\<close> is its \<open>ReadNext\<close>, given whether \<open>Head\<close> was called before.
\<close>

record ObjectReader =
  FromContainerFails :: "string \<Rightarrow> bool"
  ReaderBearerFails :: "string \<Rightarrow> bool"
  ByIDFails :: "string \<Rightarrow> bool"
  ByAttribute :: "string \<Rightarrow> string \<Rightarrow> int"
  ByFilenamePrefix :: "string \<Rightarrow> int"
  ReadNextOf :: "bool \<Rightarrow> ResRead \<Rightarrow> ResRead"

record Selection =
  oidValue :: string
  attrKeyValue :: string
  attrValValue :: string
  prefixValue :: string

record DownloadResponse =
  dlStatus :: nat
  dlBody :: body
  dlHeaders :: headers

text \<open>The error answers of the downloader (package \<open>response\<close> is not among the
  sources): status code and message; the headers are left as they are.\<close>

definition failRequestWithCode :: "DownloadResponse \<Rightarrow> string \<Rightarrow> nat \<Rightarrow> DownloadResponse" where
  "failRequestWithCode rsp msg code = rsp\<lparr>dlStatus := code, dlBody := ErrorText msg\<rparr>"

definition failDownload :: "DownloadResponse \<Rightarrow> string \<Rightarrow> DownloadResponse" where
  "failDownload rsp msg = failRequestWithCode rsp msg 400"

definition failNotFound :: "DownloadResponse \<Rightarrow> DownloadResponse" where
  "failNotFound rsp = failRequestWithCode rsp ''object not found'' 404"

text \<open>The reading loop of \<open>read\<close>: it calls \<open>ReadNext\<close> until the status is 1, 2 or 3.\<close>

partial_function (option) readLoop :: "(ResRead \<Rightarrow> ResRead) \<Rightarrow> ResRead \<Rightarrow> ResRead option" where
  "readLoop next res =
     (let res1 = next res
      in if status res1 = 1 \<or> status res1 = 2 \<or> status res1 = 3 then Some res1
         else readLoop next res1)"

text \<open>\<open>read\<close> after the selection: the \<open>ResRead\<close> it declares gets the request context
  and nothing else, so its \<open>head\<close>, \<open>selector\<close> and \<open>status\<close> have their zero values.\<close>

definition newResRead :: "headers \<Rightarrow> ResRead" where
  "newResRead c = \<lparr>head = False, selector = 0, status = 0, reqCtx = c\<rparr>"

definition performReading ::
  "ObjectReader \<Rightarrow> string \<Rightarrow> bool \<Rightarrow> DownloadResponse \<Rightarrow> DownloadResponse option" where
  "performReading rObj sCnr headArg rsp =
     (case readLoop (ReadNextOf rObj headArg) (newResRead (dlHeaders rsp)) of
        None \<Rightarrow> None
      | Some res \<Rightarrow>
          (let rsp1 = rsp\<lparr>dlHeaders := reqCtx res\<rparr>
           in if status res = 1
              then Some (rsp1\<lparr>dlHeaders := (dlHeaders rsp1)(''X-Container-Id'' \<mapsto> sCnr)\<rparr>)
              else if status res = 2 then Some (failDownload rsp1 ''read object failed'')
              else Some (failNotFound rsp1)))"

definition selectObjects ::
  "golib \<Rightarrow> ObjectReader \<Rightarrow> Selection \<Rightarrow> nat \<Rightarrow> DownloadResponse
   \<Rightarrow> DownloadResponse + DownloadResponse" where
  "selectObjects L rObj sel selectorArg rsp =
     (if selectorArg = byID then
        (if ByIDFails rObj (oidValue sel) then Inl (failDownload rsp ''incorrect object ID'')
         else Inr (rsp\<lparr>dlHeaders := (dlHeaders rsp)(''X-Object-Id'' \<mapsto> oidValue sel)\<rparr>))
      else if selectorArg = byAttr then
        (let r = ByAttribute rObj (QueryUnescape L (attrKeyValue sel))
                   (QueryUnescape L (attrValValue sel))
         in if r = - 1 then Inl (failDownload rsp ''select by attribute failed'')
            else if r = 0 then Inl (failNotFound rsp)
            else Inr rsp)
      else if selectorArg = byFile then
        (let r = ByFilenamePrefix rObj (QueryUnescape L (prefixValue sel))
         in if r = - 1 then Inl (failDownload rsp ''select by filename prefix failed'')
            else if r = 0 then Inl (failNotFound rsp)
            else Inr rsp)
      else Inr rsp)"

definition read ::
  "golib \<Rightarrow> ObjectReader \<Rightarrow> Request \<Rightarrow> Selection \<Rightarrow> nat \<Rightarrow> bool \<Rightarrow> DownloadResponse option" where
  "read L rObj c sel selectorArg headArg =
     (let sCnr = cidValue c;
          rsp = \<lparr>dlStatus = 200, dlBody = NoBody, dlHeaders = Map.empty\<rparr>
      in if FromContainerFails rObj sCnr then Some (failDownload rsp ''incorrect container ID'')
         else
           (case ReadBearer L [] c of
              (code, encodedBearer) \<Rightarrow>
                if code = - 1 then Some (failDownload rsp ''incorrect bearer token header'')
                else if code = 1 \<and> ReaderBearerFails rObj encodedBearer
                then Some (failDownload rsp ''incorrect bearer token JSON'')
                else
                  (case selectObjects L rObj sel selectorArg rsp of
                     Inl failed \<Rightarrow> Some failed
                   | Inr rsp1 \<Rightarrow> performReading rObj sCnr headArg rsp1)))"


section \<open>Download side: rewriting system keys back\<close>

fun writeParts :: "string list \<Rightarrow> string \<Rightarrow> string" where
  "writeParts [] res = res"
| "writeParts (s # ss) res =
     writeParts ss (res @ Title (ToLower s) @ (if ss \<noteq> [] then ''-'' else []))"

definition systemBackwardTranslator :: "utils \<Rightarrow> string \<Rightarrow> string" where
  "systemBackwardTranslator U key =
     writeParts (Split (TrimPrefix key (SystemAttributePrefix U)) (CHR ''_'')) ''Neofs-''"

text \<open>The HTTP spelling of a system key: \<open>Neofs-\<close> and then words of letters, the first
  letter of each in upper case and the others in lower case, joined by hyphens.\<close>

definition titleWord :: "string \<Rightarrow> bool" where
  "titleWord w =
     (case w of [] \<Rightarrow> False | c # cs \<Rightarrow> isUpperAscii c \<and> list_all isLowerAscii cs)"

definition httpSystemKey :: "string list \<Rightarrow> string" where
  "httpSystemKey ws = ''Neofs-'' @ Join ws ''-''"

section \<open>Notions used in the statements\<close>

text \<open>The token a source's value stands for in \<open>fetchBearerToken\<close>, if it decodes
  and deserializes.\<close>

definition tokenOf :: "golib \<Rightarrow> string \<Rightarrow> BearerToken option" where
  "tokenOf L v = (case DecodeBase64 L v of None \<Rightarrow> None | Some d \<Rightarrow> Unmarshal L d)"

text \<open>An upload rejected at the bearer-token stage: a client error with one of the two
  messages of that stage, nothing put, no attribute written, no payload bound.\<close>

definition rejectedAtBearer :: "uploadContext \<Rightarrow> bool" where
  "rejectedAtBearer ctx =
     (StatusCode (response ctx) = 400
      \<and> (Body (response ctx) = ErrorText ''incorrect bearer token header''
         \<or> Body (response ctx) = ErrorText ''incorrect bearer token JSON'')
      \<and> puts (creator ctx) = [] \<and> attrs (creator ctx) = []
      \<and> srcPayload ctx = None \<and> bearerTokenSet (creator ctx) = False)"

text \<open>The objects that \<open>GetObject\<close> returns for the identifiers, while it returns one.\<close>

fun fetched :: "Downloader \<Rightarrow> string \<Rightarrow> string list \<Rightarrow> Object list" where
  "fetched d cnr [] = []"
| "fetched d cnr (i # ids) =
     (case GetObject d cnr i of Inl e \<Rightarrow> [] | Inr ob \<Rightarrow> ob # fetched d cnr ids)"

section \<open>A sample environment\<close>

text \<open>Concrete values of the parameters, for the closed instances below. The parsers
  and decoders of \<open>demoLib\<close> are defined on the few texts the instances use.\<close>

definition demoUtils :: utils where
  "demoUtils = \<lparr>UserAttributeHeaderPrefix = ''X-Attribute-'',
     SystemAttributePrefix = ''__NEOFS__'',
     ExpirationRFC3339Attr = ''__NEOFS__EXPIRATION_RFC3339'',
     ExpirationTimestampAttr = ''__NEOFS__EXPIRATION_TIMESTAMP'',
     ExpirationDurationAttr = ''__NEOFS__EXPIRATION_DURATION''\<rparr>"

definition demoLib :: golib where
  "demoLib =
     \<lparr>ParseRFC3339 = (\<lambda>s. if s = ''2100-01-01T00:00:00Z'' then Some 4102444800000000000 else None),
      ParseInt = (\<lambda>s. if s = ''4102444800'' then Some 4102444800 else None),
      ParseDuration = (\<lambda>s. if s = ''1h'' then Some 3600000000000
                            else if s = ''-1h'' then Some (- 3600000000000) else None),
      Now = 1700000000000000000,
      DecodeBase64 = (\<lambda>s. if s = ''eyB9'' then Some ''{ }''
                           else if s = ''CgA='' then Some [CHR 0x0A, CHR 0x00] else None),
      UnmarshalJSON = (\<lambda>s. if s = ''{ }'' then Some \<lparr>Issuer = []\<rparr> else None),
      Unmarshal = (\<lambda>s. if s = [CHR 0x0A, CHR 0x00] then Some \<lparr>Issuer = []\<rparr> else None),
      ParseCID = (\<lambda>s. s = ''cnr''),
      DetectContentType = (\<lambda>s. ''application/octet-stream''),
      QueryUnescape = (\<lambda>s. s)\<rparr>"

definition demoNetInfo :: NetworkInfo where
  "demoNetInfo = \<lparr>CurrentEpoch = 100, MsPerBlock = 1000,
     NetworkConfig = [(''MaxObjectSize'', [CHR 0x00, CHR 0x00, CHR 0x10]),
                      (''EpochDuration'', [CHR 0xF0])]\<rparr>"

definition demoPool :: Pool where
  "demoPool = \<lparr>ConnectionErr = False, NetworkInfoRes = Some demoNetInfo,
     PutObjectRes = (\<lambda>ob. Some ''oid'')\<rparr>"

definition demoNeofs :: neofs where
  "demoNeofs = \<lparr>nfsClientPool = demoPool, nfsDefaultOwner = ''gateway''\<rparr>"

definition demoUploader :: Uploader where
  "demoUploader = \<lparr>neoFS = demoNeofs, uplDefaultTimestamp = False\<rparr>"

definition demoPart :: Part where
  "demoPart = \<lparr>FormName = ''file'', FileName = ''a.txt'', PartBody = ''hello''\<rparr>"

definition demoRequest :: "(string \<times> string) list \<Rightarrow> Request" where
  "demoRequest hs = \<lparr>Headers = hs, Authorization = None, BearerCookie = None,
     cidValue = ''cnr'', BodyParts = [demoPart], BodyErr = EOF\<rparr>"

text \<open>The context of a request with the given headers as \<open>Upload\<close> would pass it to
  \<open>processHeaders\<close>: container bound, no bearer token, payload source bound and
  provided to the creator.\<close>

definition demoBound :: "(string \<times> string) list \<Rightarrow> uploadContext" where
  "demoBound hs =
     (let ctx = initContext demoUploader (demoRequest hs)
      in ctx\<lparr>resp := (resp ctx)\<lparr>ContainerID := ''cnr''\<rparr>,
             srcPayload := Some demoPart,
             creator := ReadPayloadFrom
               ((creator ctx)\<lparr>obj := (obj (creator ctx))\<lparr>objContainerID := Some ''cnr''\<rparr>\<rparr>)
               demoPart\<rparr>)"

text \<open>A creator on the sample pool with a given network-info snapshot, what a call of
  \<open>ExpireAfter\<close> attached, and a snapshot whose \<open>EpochDuration\<close> is \<open>2 ^ 63\<close>.\<close>

definition cxNetInfo :: NetworkInfo where
  "cxNetInfo = \<lparr>CurrentEpoch = 0, MsPerBlock = 1,
     NetworkConfig = [(''EpochDuration'',
       [CHR 0x00, CHR 0x00, CHR 0x00, CHR 0x00, CHR 0x00, CHR 0x00, CHR 0x00, CHR 0x80])]\<rparr>"

definition creatorOn :: "NetworkInfo \<Rightarrow> objectCreator" where
  "creatorOn netInfo = InitObjectCreation
     \<lparr>nfsClientPool = demoPool\<lparr>NetworkInfoRes := Some netInfo\<rparr>, nfsDefaultOwner = ''gateway''\<rparr>"

definition attached ::
  "panic + (objectCreator \<times> bool) \<Rightarrow> panic + ((string \<times> string) list \<times> bool)" where
  "attached r = map_sum id (\<lambda>p. (attrs (fst p), snd p)) r"

definition demoMeta :: HeadersMeta where
  "demoMeta = \<lparr>filename = False, timestamp = False, expiration = False\<rparr>"

definition demoBearerRequest :: "string option \<Rightarrow> string option \<Rightarrow> Request" where
  "demoBearerRequest auth cookie = (demoRequest [])\<lparr>Authorization := auth, BearerCookie := cookie\<rparr>"




definition demoDownloader :: Downloader where
  "demoDownloader =
     \<lparr>ZipCompression = False,
      GetObject = (\<lambda>cnr i.
        if i = ''id1'' then Inr \<lparr>objID = ''id1'', objOwner = ''owner'',
               Attributes = [(''Timestamp'', ''1''), (''FileName'', ''report1.txt'')],
               Payload = ''one''\<rparr>
        else if i = ''id2'' then Inr \<lparr>objID = ''id2'', objOwner = ''owner'',
               Attributes = [], Payload = ''two''\<rparr>
        else Inl (Err ''object not found'')),
      zipError = (\<lambda>zw op. None)\<rparr>"

definition demoStream :: script where
  "demoStream = [(''hello '', None), (''world'', Some EOF)]"

section \<open>The system key transform is reversible\<close>

lemma lower_upper: "isLowerAscii c \<Longrightarrow> toLowerChar (toUpperChar c) = c"
  by (auto simp: isLowerAscii_def isUpperAscii_def toLowerChar_def toUpperChar_def)

lemma upper_fix: "isUpperAscii c \<Longrightarrow> toUpperChar c = c"
  by (auto simp: isLowerAscii_def isUpperAscii_def toUpperChar_def)

lemma upper_lower: "isUpperAscii c \<Longrightarrow> toUpperChar (toLowerChar c) = c"
  by (auto simp: isLowerAscii_def isUpperAscii_def toLowerChar_def toUpperChar_def)

lemma lower_of_lower: "isLowerAscii c \<Longrightarrow> toLowerChar c = c"
  by (auto simp: isLowerAscii_def isUpperAscii_def toLowerChar_def)

lemma lower_not_sep: "isLowerAscii c \<Longrightarrow> \<not> isSeparator c"
  by (auto simp: isSeparator_def)

lemma TitleFrom_lower:
  "\<not> isSeparator prev \<Longrightarrow> list_all isLowerAscii cs \<Longrightarrow> TitleFrom prev cs = cs"
  by (induction cs arbitrary: prev) (auto simp: lower_not_sep)

lemma space_sep: "isSeparator (CHR '' '')"
  by (simp add: isSeparator_def isDigitAscii_def isLowerAscii_def isUpperAscii_def)

lemma lower_ToUpper: "isLowerAscii c \<Longrightarrow> isLowerAscii (toLowerChar (toUpperChar c))"
  by (simp add: lower_upper)

lemma word_roundtrip: "titleWord w \<Longrightarrow> Title (ToLower (ToUpper w)) = w"
proof (cases w)
  case Nil
  then show "titleWord w \<Longrightarrow> ?thesis" by (simp add: titleWord_def)
next
  case (Cons c cs)
  assume "titleWord w"
  with Cons have c: "isUpperAscii c" and cs: "list_all isLowerAscii cs"
    by (simp_all add: titleWord_def)
  have low: "map (toLowerChar \<circ> toUpperChar) cs = cs"
    using cs by (induction cs) (auto simp: lower_upper)
  have "\<not> isSeparator (toLowerChar c)"
    using c by (auto simp: isSeparator_def isUpperAscii_def isLowerAscii_def toLowerChar_def)
  then have "TitleFrom (toLowerChar c) cs = cs"
    using cs by (rule TitleFrom_lower)
  then show ?thesis
    using Cons c low by (simp add: Title_def ToLower_def ToUpper_def space_sep upper_fix upper_lower)
qed


lemma Split_nonempty: "Split s sep \<noteq> []"
  by (induction s) (auto split: list.splits)

lemma Split_no_sep: "sep \<notin> set w \<Longrightarrow> Split w sep = [w]"
  by (induction w) auto

lemma Split_append: "sep \<notin> set w \<Longrightarrow> Split (w @ sep # rest) sep = w # Split rest sep"
  by (induction w) (auto split: list.splits)

lemma Split_Join:
  "ws \<noteq> [] \<Longrightarrow> \<forall>w \<in> set ws. sep \<notin> set w \<Longrightarrow> Split (Join ws [sep]) sep = ws"
  by (induction ws "[sep]" rule: Join.induct) (auto simp: Split_no_sep Split_append)

lemma writeParts_Join:
  "writeParts ss res = res @ Join (map (\<lambda>s. Title (ToLower s)) ss) ''-''"
  by (induction ss arbitrary: res rule: induct_list012) auto

lemma ReplaceAll_absent: "old \<notin> set w \<Longrightarrow> ReplaceAll w old new = w"
  by (induction w) (auto simp: ReplaceAll_def)

lemma ReplaceAll_append:
  "ReplaceAll (u @ v) old new = ReplaceAll u old new @ ReplaceAll v old new"
  by (simp add: ReplaceAll_def)

lemma Join_map_ReplaceAll:
  "\<forall>w \<in> set ws. old \<notin> set w \<Longrightarrow> ReplaceAll (Join ws [old]) old new = Join ws [new]"
proof (induction ws "[old]" rule: Join.induct)
  case 1
  then show ?case by (simp add: ReplaceAll_def)
next
  case (2 w)
  then show ?case by (simp add: ReplaceAll_absent)
next
  case (3 w v ws)
  then show ?case by (simp add: ReplaceAll_append ReplaceAll_absent) (simp add: ReplaceAll_def)
qed

lemma ToUpper_Join:
  "toUpperChar sep = sep \<Longrightarrow> ToUpper (Join ws [sep]) = Join (map ToUpper ws) [sep]"
  by (induction ws "[sep]" rule: Join.induct) (auto simp: ToUpper_def)

lemma titleWord_chars:
  "titleWord w \<Longrightarrow> c \<in> set w \<Longrightarrow> isUpperAscii c \<or> isLowerAscii c"
  by (auto simp: titleWord_def list_all_iff split: list.splits)

lemma upper_of_lower: "isLowerAscii c \<Longrightarrow> isUpperAscii (toUpperChar c)"
  by (auto simp: toUpperChar_def isLowerAscii_def isUpperAscii_def)

lemma upper_not_underscore: "isUpperAscii c \<Longrightarrow> c \<noteq> CHR ''_''"
  by (auto simp: isUpperAscii_def)

lemma titleWord_upper_no_underscore:
  assumes "titleWord w"
  shows "CHR ''_'' \<notin> set (ToUpper w)"
proof
  assume "CHR ''_'' \<in> set (ToUpper w)"
  then obtain c where c: "c \<in> set w" and u: "toUpperChar c = CHR ''_''"
    by (auto simp: ToUpper_def)
  from titleWord_chars [OF assms c] have "isUpperAscii (toUpperChar c)"
    by (auto simp: upper_of_lower upper_fix)
  with u show False
    by (simp add: upper_not_underscore)
qed

lemma titleWord_no_hyphen: "titleWord w \<Longrightarrow> CHR ''-'' \<notin> set w"
  by (auto simp: isLowerAscii_def isUpperAscii_def dest!: titleWord_chars)

text \<open>
  C9: for every key of the HTTP spelling \<open>Neofs-\<close> followed by hyphen-separated
  Title-Case words of letters, \<open>WriteHeader\<close> (called with the length of the \<open>Neofs-\<close>
  prefix) stores the attribute under a key that \<open>systemBackwardTranslator\<close> maps back
  to the original HTTP key: the backward translator is a left inverse of the forward
  transform on that key shape.
\<close>

theorem system_key_roundtrip:
  assumes ws: "list_all titleWord ws"
    and len: "SystemPrefixLen hdr = 6"
    and key: "Key hdr = httpSystemKey ws"
    and pre: "SystemAttributePrefix U = SysAttributePrefix"
  shows "\<exists>k. WriteHeader x meta hdr = Inr (metKey meta k, addAttribute x k (Value hdr))
             \<and> systemBackwardTranslator U k = Key hdr"
proof -
  have tw: "\<And>w. w \<in> set ws \<Longrightarrow> titleWord w"
    using ws by (simp add: list_all_iff)
  define k where "k = SysAttributePrefix @ Join (map ToUpper ws) ''_''"
  have "ReplaceAll (Join ws ''-'') (CHR ''-'') (CHR ''_'') = Join ws ''_''"
    by (rule Join_map_ReplaceAll) (simp add: tw titleWord_no_hyphen)
  then have rep: "ReplaceAll (SysAttributePrefix @ Join ws ''-'') (CHR ''-'') (CHR ''_'')
      = SysAttributePrefix @ Join ws ''_''"
    by (simp add: ReplaceAll_append) (simp add: ReplaceAll_def SysAttributePrefix_def)
  have up: "ToUpper (SysAttributePrefix @ Join ws ''_'') = k"
    unfolding k_def
    using ToUpper_Join [of "CHR ''_''" ws]
    by (simp add: ToUpper_def SysAttributePrefix_def toUpperChar_def isLowerAscii_def)
  have sk: "systemKey hdr = Inr k"
    by (simp add: systemKey_def len key httpSystemKey_def rep up)
  have wh: "WriteHeader x meta hdr = Inr (metKey meta k, addAttribute x k (Value hdr))"
    by (simp add: WriteHeader_def sk)
  have trim: "TrimPrefix k (SystemAttributePrefix U) = Join (map ToUpper ws) ''_''"
    by (simp add: TrimPrefix_def HasPrefix_def pre k_def)
  have rt: "map ((\<lambda>s. Title (ToLower s)) \<circ> ToUpper) ws = ws"
    using tw by (induction ws) (auto simp: word_roundtrip)
  have bwd: "systemBackwardTranslator U k = httpSystemKey ws"
  proof (cases "ws = []")
    case True
    then show ?thesis
      by (simp add: systemBackwardTranslator_def trim httpSystemKey_def Title_def ToLower_def)
  next
    case False
    have "Split (Join (map ToUpper ws) ''_'') (CHR ''_'') = map ToUpper ws"
      by (rule Split_Join) (use False tw in \<open>auto simp: titleWord_upper_no_underscore\<close>)
    then show ?thesis
      by (simp add: systemBackwardTranslator_def trim writeParts_Join rt httpSystemKey_def)
  qed
  show ?thesis
    using wh bwd key by auto
qed

theorem system_key_roundtrip_witness:
  "list_all titleWord [''Expiration'', ''Epoch'']
   \<and> (\<exists>k. WriteHeader (InitObjectCreation demoNeofs) demoMeta
          \<lparr>SystemPrefixLen = 6, Key = ''Neofs-Expiration-Epoch'', Value = ''42''\<rparr>
        = Inr (metKey demoMeta k, addAttribute (InitObjectCreation demoNeofs) k ''42'')
        \<and> systemBackwardTranslator demoUtils k = ''Neofs-Expiration-Epoch'')"
proof -
  have w: "list_all titleWord [''Expiration'', ''Epoch'']"
    by (simp add: titleWord_def isUpperAscii_def isLowerAscii_def)
  have k: "Key \<lparr>SystemPrefixLen = 6, Key = ''Neofs-Expiration-Epoch'', Value = ''42''\<rparr>
      = httpSystemKey [''Expiration'', ''Epoch'']"
    by (simp add: httpSystemKey_def)
  have p: "SystemAttributePrefix demoUtils = SysAttributePrefix"
    by (simp add: demoUtils_def SysAttributePrefix_def)
  show ?thesis
    using w system_key_roundtrip [OF w _ k p, of "InitObjectCreation demoNeofs" demoMeta] by simp
qed

section \<open>Upload: headers with an empty value\<close>

lemma visit_empty_value: "visit U L s k [] = Inr s"
  by (simp add: visit_def)

lemma VisitAll_append:
  "VisitAll f (hs1 @ hs2) s =
     (case VisitAll f hs1 s of Inl p \<Rightarrow> Inl p | Inr s' \<Rightarrow> VisitAll f hs2 s')"
  by (induction hs1 arbitrary: s) (auto split: sum.splits)

lemma VisitAll_skip_empty:
  "VisitAll (visit U L) (hs1 @ (k, []) # hs2) s = VisitAll (visit U L) (hs1 @ hs2) s"
  by (simp add: VisitAll_append visit_empty_value split: sum.splits)

text \<open>
  C10: a request header whose value is empty is skipped by the header-processing stage,
  whatever its key: visiting it leaves the whole state as it was (no attribute, no
  encountered flag, no expiration type or duration), and \<open>processHeaders\<close> gives the same
  result, defaults included, as on the headers without it.
\<close>

theorem empty_value_header_skipped:
  "visit U L s k [] = Inr s
   \<and> processHeadersOver U L (hs1 @ (k, []) # hs2) ctx = processHeadersOver U L (hs1 @ hs2) ctx"
  by (simp add: visit_empty_value processHeadersOver_def VisitAll_skip_empty)

section \<open>Upload: binding the payload\<close>


lemma initPayloadSource_binds_last:
  "FormName p \<noteq> [] \<Longrightarrow> FileName p \<noteq> [] \<Longrightarrow> FormName q \<noteq> [] \<Longrightarrow> FileName q \<noteq> []
   \<Longrightarrow> srcPayload (initPayloadSource ctx [p, q] e) = Some q"
  by simp

text \<open>
  C2: the claim says that the first usable body part becomes the payload source and that
  binding succeeds whenever there is one. The loop of \<open>initPayloadSource\<close> has no exit
  but the error of \<open>NextPart\<close>: on a body with one usable part, \<open>Upload\<close> answers 400
  "receive multipart/form" and nothing is put.
\<close>

theorem upload_one_usable_part:
  "map_sum id (\<lambda>c. (fail c, srcPayload c, puts (creator c), response c))
     (Upload demoUtils demoLib demoUploader (demoRequest []))
   = Inr (True, Some demoPart, [],
          \<lparr>StatusCode = 400, Body = ErrorText ''receive multipart/form''\<rparr>)"
  by code_simp

section \<open>Upload: expiration headers\<close>

text \<open>The value of an expiration header is not what its form parses: \<open>hdr.Value\<close> is
  assigned on the path of the other attribute headers only.\<close>

lemma expiration_value_not_read:
  assumes "v \<noteq> []" and "v' \<noteq> []"
    and "0 < detectExpiration U (TrimPrefix k (UserAttributeHeaderPrefix U))"
  shows "visit U L s k v = visit U L s k v'"
  using assms by (simp add: visit_def Let_def)

text \<open>The comparisons of the priority rule: a form of lower priority than the one
  recorded, or any form after the expiration-epoch attribute was met, changes nothing;
  a form of equal or higher priority is recorded; and once the epoch attribute was met,
  \<open>ExpireAfter\<close> is not called.\<close>

lemma lower_priority_form_ignored:
  assumes "\<not> fail (vctx s)" and "v \<noteq> []"
    and "length (TrimPrefix k (UserAttributeHeaderPrefix U)) \<noteq> length k"
    and "0 < detectExpiration U (TrimPrefix k (UserAttributeHeaderPrefix U))"
    and "detectExpiration U (TrimPrefix k (UserAttributeHeaderPrefix U)) < expTyp s
         \<or> expiration (vmeta s)"
  shows "\<exists>s'. visit U L s k v = Inr s' \<and> expTyp s' = expTyp s \<and> expDur s' = expDur s
           \<and> vctx s' = vctx s \<and> vmeta s' = vmeta s"
  using assms by (auto simp: visit_def Let_def)

lemma parseExpiration_keeps:
  "expTyp (parseExpiration L s) = expTyp s \<and> vmeta (parseExpiration L s) = vmeta s
   \<and> creator (vctx (parseExpiration L s)) = creator (vctx s)"
  by (simp add: parseExpiration_def split: option.splits)

lemma checkFuture_keeps:
  "expTyp (checkFuture s) = expTyp s \<and> vmeta (checkFuture s) = vmeta s
   \<and> creator (vctx (checkFuture s)) = creator (vctx s)"
  by (simp add: checkFuture_def)

lemma catchFailure_keeps:
  "expTyp (catchFailure s) = expTyp s \<and> vmeta (catchFailure s) = vmeta s
   \<and> creator (vctx (catchFailure s)) = creator (vctx s)"
  by (simp add: catchFailure_def failExpiration_def failRequest_def)

lemma higher_priority_form_recorded:
  assumes "\<not> fail (vctx s)" and "v \<noteq> []"
    and "length (TrimPrefix k (UserAttributeHeaderPrefix U)) \<noteq> length k"
    and "0 < detectExpiration U (TrimPrefix k (UserAttributeHeaderPrefix U))"
    and "expTyp s \<le> detectExpiration U (TrimPrefix k (UserAttributeHeaderPrefix U))"
    and "\<not> expiration (vmeta s)"
  shows "\<exists>s'. visit U L s k v = Inr s'
           \<and> expTyp s' = detectExpiration U (TrimPrefix k (UserAttributeHeaderPrefix U))
           \<and> vmeta s' = vmeta s \<and> creator (vctx s') = creator (vctx s)"
  using assms
  by (simp add: visit_def Let_def parseExpiration_keeps checkFuture_keeps catchFailure_keeps)

lemma no_form_applied_after_epoch:
  "expiration (vmeta s) \<Longrightarrow> \<not> fail (vctx s) \<Longrightarrow> writeRemaining L s = writeDefaults L s (vctx s)"
  by (simp add: writeRemaining_def)

text \<open>
  C1: the claim says that with the three expiration forms in one request the duration
  until expiry is the one of the duration form. On such a request, every value well
  formed and in the future, \<open>processHeaders\<close> parses the empty \<open>hdr.Value\<close> at the first
  form it visits and fails the request; no expiration is attached.
\<close>

theorem three_expiration_forms:
  "map_sum id (\<lambda>c. (fail c, attrs (creator c), puts (creator c), response c))
     (processHeaders demoUtils demoLib (demoBound
        [(''X-Attribute-__NEOFS__EXPIRATION_RFC3339'', ''2100-01-01T00:00:00Z''),
         (''X-Attribute-__NEOFS__EXPIRATION_TIMESTAMP'', ''4102444800''),
         (''X-Attribute-__NEOFS__EXPIRATION_DURATION'', ''1h'')]))
   = Inr (True, [], [],
          \<lparr>StatusCode = 400,
           Body = ErrorText ''problem with expiration header, try expiration in epoch''\<rparr>)"
  by code_simp

text \<open>
  The statements of \<open>Upload\<close> after payload binding call \<open>Close\<close> whatever the
  failure flag says after \<open>processHeaders\<close>: on a context with a bound payload (which
  no request reaches, see below) and an expiration duration of minus one hour, the object
  would be put and the answer be 400.
\<close>

lemma close_follows_failed_headers:
  "map_sum id (\<lambda>c. (fail c, map fst (puts (creator c)), response c))
     (storeUpload demoUtils demoLib (demoBound
        [(''X-Attribute-Foo'', ''-1h''),
         (''X-Attribute-__NEOFS__EXPIRATION_DURATION'', ''-1h'')]))
   = Inr (True,
          [\<lparr>objContainerID = Some ''cnr'', objOwnerID = Some ''gateway'',
            objAttributes = [(''Foo'', ''-1h'')]\<rparr>],
          \<lparr>StatusCode = 400, Body = ErrorText ''store file in NeoFS failed''\<rparr>)"
  by code_simp





section \<open>Upload: the expiration epoch\<close>



lemma iterate_from:
  "val (IterateParameters epochCallback ps de) =
     (case map_of ps ''EpochDuration'' of None \<Rightarrow> val de
      | Some v \<Rightarrow> LittleEndianUint64 (copy8 v))"
  by (induction ps arbitrary: de) (auto simp: epochCallback_def Let_def split: option.splits)

lemma leValue_bound: "leValue bs < 256 ^ length bs"
proof (induction bs)
  case Nil
  then show ?case by simp
next
  case (Cons b bs)
  have byte: "(of_char b :: nat) < 256"
    by (metis of_char_mod_256 mod_less_divisor zero_less_numeral)
  have "leValue bs + 1 \<le> 256 ^ length bs"
    using Cons by simp
  then have "256 * (leValue bs + 1) \<le> 256 * 256 ^ length bs"
    by (rule mult_le_mono2)
  moreover have "of_char b + 256 * leValue bs < 256 * (leValue bs + 1)"
    using byte by simp
  ultimately have "of_char b + 256 * leValue bs < 256 * 256 ^ length bs"
    by (rule less_le_trans [rotated])
  then show ?case by simp
qed

lemma length_copy8: "length (copy8 v) = 8"
  by (auto simp: copy8_def)

lemma leValue_copy8: "leValue (copy8 v) < 2 ^ 64"
  using leValue_bound [of "copy8 v"] by (simp add: length_copy8)

lemma epochDurationParam_bound: "epochDurationParam netInfo < 2 ^ 64"
  using leValue_copy8 by (auto simp: epochDurationParam_def split: option.splits)

lemma val_iterate:
  "val (IterateParameters epochCallback (NetworkConfig netInfo) \<lparr>found = False, val = 0\<rparr>)
     = of_nat (epochDurationParam netInfo)"
  by (simp add: iterate_from epochDurationParam_def LittleEndianUint64_def split: option.splits)


lemma unat_val_iterate:
  "unat (val (IterateParameters epochCallback (NetworkConfig netInfo) \<lparr>found = False, val = 0\<rparr>))
     = epochDurationParam netInfo"
  using epochDurationParam_bound [of netInfo] by (simp add: val_iterate unat_of_nat)

lemma unat_word_of_int_nonneg:
  assumes "0 \<le> i" and "i < 2 ^ 64"
  shows "unat (word_of_int i :: 64 word) = nat i"
proof -
  have "(word_of_int i :: 64 word) = of_nat (nat i)"
    using assms by simp
  moreover have "nat i < 2 ^ 64"
    using assms by (simp add: nat_less_iff)
  ultimately show ?thesis
    by (simp add: unat_of_nat)
qed

lemma Milliseconds_nonneg: "0 \<le> d \<Longrightarrow> Milliseconds d = d div 1000000"
  by (simp add: Milliseconds_def)

lemma Milliseconds_range: "0 \<le> d \<Longrightarrow> d < 2 ^ 63 \<Longrightarrow> 0 \<le> Milliseconds d \<and> Milliseconds d < 2 ^ 64"
  by (simp add: Milliseconds_def) (smt (verit) div_by_1 zdiv_mono2 pos_imp_zdiv_nonneg_iff)

lemma expirationEpoch_exact:
  assumes dur: "0 \<le> dn" "dn < 2 ^ 63"
    and mspb: "0 < MsPerBlock netInfo" "MsPerBlock netInfo < 2 ^ 63"
    and de: "unat (val de) = E"
    and fits: "nat (Milliseconds dn) * E < 2 ^ 64"
    and sum: "unat (CurrentEpoch netInfo)
              + nat (Milliseconds dn) * E div nat (MsPerBlock netInfo) < 2 ^ 64"
  shows "\<exists>e. expirationEpoch netInfo de dn = Inr e
           \<and> unat e = unat (CurrentEpoch netInfo)
                      + nat (Milliseconds dn) * E div nat (MsPerBlock netInfo)"
proof -
  let ?ms = "word_of_int (Milliseconds dn) :: 64 word"
  let ?d = "word_of_int (MsPerBlock netInfo) :: 64 word"
  have ums: "unat ?ms = nat (Milliseconds dn)"
    using Milliseconds_range [OF dur] by (simp add: unat_word_of_int_nonneg)
  have ud: "unat ?d = nat (MsPerBlock netInfo)"
    using mspb by (simp add: unat_word_of_int_nonneg)
  have dnz: "?d \<noteq> 0"
    using ud mspb by (metis unat_0 nat_0_iff not_less)
  have "unat ?ms * unat (val de) < 2 ^ LENGTH(64)"
    using fits by (simp add: ums de)
  then have um: "unat (?ms * val de) = nat (Milliseconds dn) * E"
    by (simp add: unat_mult_lem [THEN iffD1] ums de)
  have uq: "unat ((?ms * val de) div ?d) = nat (Milliseconds dn) * E div nat (MsPerBlock netInfo)"
    by (simp add: unat_div um ud)
  have "unat (CurrentEpoch netInfo) + unat ((?ms * val de) div ?d) < 2 ^ LENGTH(64)"
    using sum by (simp add: uq)
  then have "unat (CurrentEpoch netInfo + (?ms * val de) div ?d)
      = unat (CurrentEpoch netInfo) + unat ((?ms * val de) div ?d)"
    by (simp add: unat_add_lem [THEN iffD1])
  then show ?thesis
    using dnz by (simp add: expirationEpoch_def uq)
qed


lemma word_of_int_int64_nonzero:
  assumes "i \<noteq> 0" and "- (2 ^ 63) \<le> i" and "i < 2 ^ 63"
  shows "(word_of_int i :: 64 word) \<noteq> 0"
proof
  assume "(word_of_int i :: 64 word) = 0"
  then have "(2 :: int) ^ LENGTH(64) dvd i"
    by (simp add: word_of_int_eq_0_iff)
  then obtain k where k: "i = 2 ^ 64 * k"
    by (auto simp: dvd_def)
  with assms show False
    by (cases "k = 0") auto
qed



text \<open>
  C4 (amended): with a network-info snapshot at hand, \<open>ExpireAfter\<close> attaches the
  expiration-epoch attribute with the value
  \<open>current_epoch + floor(duration_ms * epoch_duration_param / ms_per_block)\<close>
  whenever the duration is not negative, \<open>ms_per_block\<close> is positive and the product and
  the sum stay below \<open>2 ^ 64\<close>; and when the \<open>EpochDuration\<close> parameter is absent
  and \<open>ms_per_block\<close> is not zero, the attached epoch is the current epoch. (The code
  computes on unsigned 64-bit integers.)
\<close>

theorem expire_after_epoch:
  assumes conn: "\<not> ConnectionErr (clientPool x)"
    and ni: "NetworkInfoRes (clientPool x) = Some netInfo"
  shows
    "(0 \<le> dn \<and> dn < 2 ^ 63 \<and> 0 < MsPerBlock netInfo \<and> MsPerBlock netInfo < 2 ^ 63
        \<and> nat (Milliseconds dn) * epochDurationParam netInfo < 2 ^ 64
        \<and> unat (CurrentEpoch netInfo)
            + nat (Milliseconds dn) * epochDurationParam netInfo div nat (MsPerBlock netInfo)
            < 2 ^ 64
      \<longrightarrow> ExpireAfter x dstFail dn =
            Inr (addAttribute x SysAttributeExpEpoch
                   (FormatUint (unat (CurrentEpoch netInfo)
                      + nat (Milliseconds dn) * epochDurationParam netInfo
                          div nat (MsPerBlock netInfo))),
                 dstFail))
     \<and> (map_of (NetworkConfig netInfo) ''EpochDuration'' = None
        \<and> MsPerBlock netInfo \<noteq> 0 \<and> - (2 ^ 63) \<le> MsPerBlock netInfo
        \<and> MsPerBlock netInfo < 2 ^ 63
      \<longrightarrow> ExpireAfter x dstFail dn =
            Inr (addAttribute x SysAttributeExpEpoch (FormatUint (unat (CurrentEpoch netInfo))),
                 dstFail))"
proof (intro conjI impI)
  assume h: "0 \<le> dn \<and> dn < 2 ^ 63 \<and> 0 < MsPerBlock netInfo \<and> MsPerBlock netInfo < 2 ^ 63
        \<and> nat (Milliseconds dn) * epochDurationParam netInfo < 2 ^ 64
        \<and> unat (CurrentEpoch netInfo)
            + nat (Milliseconds dn) * epochDurationParam netInfo div nat (MsPerBlock netInfo)
            < 2 ^ 64"
  let ?de = "IterateParameters epochCallback (NetworkConfig netInfo) \<lparr>found = False, val = 0\<rparr>"
  from h expirationEpoch_exact [of dn netInfo ?de "epochDurationParam netInfo"]
  obtain e where "expirationEpoch netInfo ?de dn = Inr e"
    and "unat e = unat (CurrentEpoch netInfo)
           + nat (Milliseconds dn) * epochDurationParam netInfo div nat (MsPerBlock netInfo)"
    by (auto simp: unat_val_iterate)
  then show "ExpireAfter x dstFail dn =
            Inr (addAttribute x SysAttributeExpEpoch
                   (FormatUint (unat (CurrentEpoch netInfo)
                      + nat (Milliseconds dn) * epochDurationParam netInfo
                          div nat (MsPerBlock netInfo))),
                 dstFail)"
    using conn ni by (simp add: ExpireAfter_def)
next
  assume h: "map_of (NetworkConfig netInfo) ''EpochDuration'' = None
        \<and> MsPerBlock netInfo \<noteq> 0 \<and> - (2 ^ 63) \<le> MsPerBlock netInfo
        \<and> MsPerBlock netInfo < 2 ^ 63"
  then have nz: "(word_of_int (MsPerBlock netInfo) :: 64 word) \<noteq> 0"
    by (simp add: word_of_int_int64_nonzero)
  from h have "val (IterateParameters epochCallback (NetworkConfig netInfo)
                 \<lparr>found = False, val = 0\<rparr>) = 0"
    by (simp add: iterate_from)
  then show "ExpireAfter x dstFail dn =
            Inr (addAttribute x SysAttributeExpEpoch (FormatUint (unat (CurrentEpoch netInfo))),
                 dstFail)"
    using conn ni nz by (simp add: ExpireAfter_def expirationEpoch_def)
qed




lemma attached_creatorOn:
  "attached (Inr (addAttribute (creatorOn netInfo) k v, f)) = Inr ([(k, v)], f)"
  by (simp add: attached_def addAttribute_def creatorOn_def InitObjectCreation_def)

lemma creatorOn_pool:
  "\<not> ConnectionErr (clientPool (creatorOn netInfo))"
  "NetworkInfoRes (clientPool (creatorOn netInfo)) = Some netInfo"
  by (simp_all add: creatorOn_def InitObjectCreation_def demoPool_def)

lemma cx_param: "epochDurationParam cxNetInfo = 9223372036854775808"
  by (simp add: epochDurationParam_def cxNetInfo_def copy8_def)

lemma cx_epoch:
  "expirationEpoch cxNetInfo
     (IterateParameters epochCallback (NetworkConfig cxNetInfo) \<lparr>found = False, val = 0\<rparr>)
     2000000 = Inr 0"
  by (simp add: expirationEpoch_def val_iterate cx_param Milliseconds_def)
     (simp add: cxNetInfo_def)

lemma cx_exact:
  "unat (CurrentEpoch cxNetInfo)
     + nat (Milliseconds 2000000) * epochDurationParam cxNetInfo div nat (MsPerBlock cxNetInfo)
   = 18446744073709551616"
  by (simp add: cx_param Milliseconds_def) (simp add: cxNetInfo_def)

text \<open>C4 as stated fails where the product leaves 64 bits: with a duration of 2 ms,
  an \<open>EpochDuration\<close> of \<open>2 ^ 63\<close> and one millisecond per block, the exact value is
  \<open>2 ^ 64\<close>, and the attribute written is 0.\<close>

theorem expire_after_epoch_wraps:
  "attached (ExpireAfter (creatorOn cxNetInfo) False 2000000)
   \<noteq> Inr ([(SysAttributeExpEpoch,
             FormatUint (unat (CurrentEpoch cxNetInfo)
               + nat (Milliseconds 2000000) * epochDurationParam cxNetInfo
                   div nat (MsPerBlock cxNetInfo)))],
          False)"
proof -
  have "ExpireAfter (creatorOn cxNetInfo) False 2000000
      = Inr (addAttribute (creatorOn cxNetInfo) SysAttributeExpEpoch (FormatUint 0), False)"
    by (simp add: ExpireAfter_def creatorOn_pool cx_epoch)
  then have "attached (ExpireAfter (creatorOn cxNetInfo) False 2000000)
      = Inr ([(SysAttributeExpEpoch, ''0'')], False)"
    by (simp add: attached_creatorOn) (simp add: FormatUint.simps digitChar_def)
  moreover have "FormatUint 18446744073709551616 = ''18446744073709551616''"
    by (simp add: FormatUint.simps digitChar_def)
  ultimately show ?thesis
    by (simp add: cx_exact)
qed

lemma demo_param: "epochDurationParam demoNetInfo = 240"
  by (simp add: epochDurationParam_def demoNetInfo_def copy8_def eval_nat_numeral)

theorem expire_after_epoch_witness:
  "attached (ExpireAfter (creatorOn demoNetInfo) False 3600000000000)
     = Inr ([(SysAttributeExpEpoch, ''864100'')], False)
   \<and> attached (ExpireAfter (creatorOn (demoNetInfo\<lparr>NetworkConfig := []\<rparr>)) False 3600000000000)
     = Inr ([(SysAttributeExpEpoch, ''100'')], False)"
proof -
  let ?ni = "demoNetInfo\<lparr>NetworkConfig := []\<rparr>"
  have ms: "Milliseconds 3600000000000 = 3600000"
    by (simp add: Milliseconds_def)
  have h1: "0 \<le> (3600000000000 :: int) \<and> (3600000000000 :: int) < 2 ^ 63
        \<and> 0 < MsPerBlock demoNetInfo \<and> MsPerBlock demoNetInfo < 2 ^ 63
        \<and> nat (Milliseconds 3600000000000) * epochDurationParam demoNetInfo < 2 ^ 64
        \<and> unat (CurrentEpoch demoNetInfo)
            + nat (Milliseconds 3600000000000) * epochDurationParam demoNetInfo
                div nat (MsPerBlock demoNetInfo) < 2 ^ 64"
    by (simp add: ms demo_param) (simp add: demoNetInfo_def)
  have v1: "unat (CurrentEpoch demoNetInfo)
              + nat (Milliseconds 3600000000000) * epochDurationParam demoNetInfo
                  div nat (MsPerBlock demoNetInfo) = 864100"
    by (simp add: ms demo_param) (simp add: demoNetInfo_def)
  have h2: "map_of (NetworkConfig ?ni) ''EpochDuration'' = None
        \<and> MsPerBlock ?ni \<noteq> 0 \<and> - (2 ^ 63) \<le> MsPerBlock ?ni \<and> MsPerBlock ?ni < 2 ^ 63"
    by (simp add: demoNetInfo_def)
  have v2: "unat (CurrentEpoch ?ni) = 100"
    by (simp add: demoNetInfo_def)
  have f1: "FormatUint 864100 = ''864100''" and f2: "FormatUint 100 = ''100''"
    by (simp_all add: FormatUint.simps digitChar_def)
  from expire_after_epoch [where x = "creatorOn demoNetInfo" and netInfo = demoNetInfo
      and dn = 3600000000000 and dstFail = False, OF creatorOn_pool,
      THEN conjunct1, THEN mp, OF h1]
  have r1: "ExpireAfter (creatorOn demoNetInfo) False 3600000000000
      = Inr (addAttribute (creatorOn demoNetInfo) SysAttributeExpEpoch ''864100'', False)"
    by (simp only: v1 f1)
  from expire_after_epoch [where x = "creatorOn ?ni" and netInfo = ?ni
      and dn = 3600000000000 and dstFail = False, OF creatorOn_pool,
      THEN conjunct2, THEN mp, OF h2]
  have r2: "ExpireAfter (creatorOn ?ni) False 3600000000000
      = Inr (addAttribute (creatorOn ?ni) SysAttributeExpEpoch ''100'', False)"
    by (simp only: v2 f2)
  show ?thesis
    by (simp only: r1 r2 attached_creatorOn)
qed

section \<open>Bearer tokens: malformed values\<close>

lemma ReadBearer_codes:
  "b64Bearer c = None \<Longrightarrow> fst (ReadBearer L dst c) = 0"
  "b64Bearer c = Some b \<Longrightarrow> DecodeBase64 L b = None \<Longrightarrow> fst (ReadBearer L dst c) = - 1"
  "b64Bearer c = Some b \<Longrightarrow> DecodeBase64 L b = Some d
     \<Longrightarrow> ReadBearer L dst c = (1, decodeBuffer b d)"
  by (simp_all add: ReadBearer_def)

lemma upload_bad_base64:
  assumes "ParseCID L (cidValue c)" and "b64Bearer c = Some b" and "DecodeBase64 L b = None"
  shows "\<exists>ctx. Upload U L x c = Inr ctx \<and> rejectedAtBearer ctx"
  using assms
  by (simp add: Upload_def Let_def IntoContainer_def ReadBearer_def initContext_def
      InitObjectCreation_def failRequest_def rejectedAtBearer_def)

lemma upload_bad_token:
  assumes "ParseCID L (cidValue c)" and "b64Bearer c = Some b" and "DecodeBase64 L b = Some d"
    and "UnmarshalJSON L (decodeBuffer b d) = None"
  shows "\<exists>ctx. Upload U L x c = Inr ctx \<and> rejectedAtBearer ctx"
  using assms
  by (simp add: Upload_def Let_def IntoContainer_def ReadBearer_def initContext_def
      InitObjectCreation_def failRequest_def rejectedAtBearer_def UseBearerToken_def)

lemma fetch_cases:
  "fetchBearerToken L (Some c) =
     (case BearerTokenFromHeader c of
        Some v \<Rightarrow>
          (case tokenOf L v of
             Some t \<Rightarrow> (Some t, None)
           | None \<Rightarrow>
               (case BearerTokenFromCookie c of
                  None \<Rightarrow> fetchFrom L [] c
                             (Some (if DecodeBase64 L v = None
                                    then Err ''can't base64-decode bearer token''
                                    else Err ''can't unmarshal bearer token''))
                | Some w \<Rightarrow>
                    (case tokenOf L w of
                       Some t \<Rightarrow> (Some t, None)
                     | None \<Rightarrow> (None, Some (if DecodeBase64 L w = None
                                    then Err ''can't base64-decode bearer token''
                                    else Err ''can't unmarshal bearer token'')))))
      | None \<Rightarrow>
          (case BearerTokenFromCookie c of
             None \<Rightarrow> (None, None)
           | Some w \<Rightarrow>
               (case tokenOf L w of
                  Some t \<Rightarrow> (Some t, None)
                | None \<Rightarrow> (None, Some (if DecodeBase64 L w = None
                                    then Err ''can't base64-decode bearer token''
                                    else Err ''can't unmarshal bearer token'')))))"
  by (auto simp: fetchBearerToken_def tokenOf_def split: option.splits)

text \<open>
  C7 (amended): a presented bearer-token value that fails base64 decoding or
  deserialization is reported as malformed, not as absent, and the request is rejected
  with a client error: always in the handlers that resolve the token with \<open>ReadBearer\<close>
  (the upload), and in those that resolve it with \<open>fetchBearerToken\<close> unless the malformed
  value is the header's and the \<open>Bearer\<close> cookie holds a well-formed token, which is then
  the one used.
\<close>

theorem malformed_bearer_rejected:
  "(ParseCID L (cidValue c) \<and> b64Bearer c = Some b
      \<and> (DecodeBase64 L b = None
         \<or> (\<exists>d. DecodeBase64 L b = Some d \<and> UnmarshalJSON L (decodeBuffer b d) = None))
    \<longrightarrow> fst (ReadBearer L dst c) \<noteq> 0
        \<and> (DecodeBase64 L b = None \<longrightarrow> fst (ReadBearer L dst c) = - 1)
        \<and> (\<exists>ctx. Upload U L x c = Inr ctx \<and> rejectedAtBearer ctx))
   \<and> (((\<exists>v. BearerTokenFromHeader c = Some v \<and> tokenOf L v = None)
         \<and> (BearerTokenFromCookie c = None
            \<or> (\<exists>w. BearerTokenFromCookie c = Some w \<and> tokenOf L w = None)))
       \<or> (BearerTokenFromHeader c = None
          \<and> (\<exists>w. BearerTokenFromCookie c = Some w \<and> tokenOf L w = None))
    \<longrightarrow> (\<exists>e. StoreBearerToken L c = Inl e))
   \<and> ((\<exists>v. BearerTokenFromHeader c = Some v \<and> tokenOf L v = None)
       \<and> BearerTokenFromCookie c = Some w \<and> tokenOf L w = Some t
    \<longrightarrow> StoreBearerToken L c = Inr (Some t))"
proof (intro conjI impI)
  assume h: "ParseCID L (cidValue c) \<and> b64Bearer c = Some b
      \<and> (DecodeBase64 L b = None
         \<or> (\<exists>d. DecodeBase64 L b = Some d \<and> UnmarshalJSON L (decodeBuffer b d) = None))"
  then show "fst (ReadBearer L dst c) \<noteq> 0"
    by (auto simp: ReadBearer_def)
  from h show "\<exists>ctx. Upload U L x c = Inr ctx \<and> rejectedAtBearer ctx"
    using upload_bad_base64 upload_bad_token by blast
  assume "DecodeBase64 L b = None"
  with h show "fst (ReadBearer L dst c) = - 1"
    by (simp add: ReadBearer_def)
next
  assume "((\<exists>v. BearerTokenFromHeader c = Some v \<and> tokenOf L v = None)
         \<and> (BearerTokenFromCookie c = None
            \<or> (\<exists>w. BearerTokenFromCookie c = Some w \<and> tokenOf L w = None)))
       \<or> (BearerTokenFromHeader c = None
          \<and> (\<exists>w. BearerTokenFromCookie c = Some w \<and> tokenOf L w = None))"
  then show "\<exists>e. StoreBearerToken L c = Inl e"
    by (auto simp: StoreBearerToken_def fetch_cases)
next
  assume "(\<exists>v. BearerTokenFromHeader c = Some v \<and> tokenOf L v = None)
       \<and> BearerTokenFromCookie c = Some w \<and> tokenOf L w = Some t"
  then show "StoreBearerToken L c = Inr (Some t)"
    by (auto simp: StoreBearerToken_def fetch_cases)
qed

text \<open>C7 as stated fails in \<open>fetchBearerToken\<close>: a header value that is not base64
  is passed over when the cookie holds a well-formed token.\<close>

theorem malformed_header_valid_cookie:
  "BearerTokenFromHeader (demoBearerRequest (Some ''Bearer !!!'') (Some ''CgA='')) = Some ''!!!''
   \<and> DecodeBase64 demoLib ''!!!'' = None
   \<and> StoreBearerToken demoLib (demoBearerRequest (Some ''Bearer !!!'') (Some ''CgA=''))
       = Inr (Some \<lparr>Issuer = []\<rparr>)"
  by code_simp

theorem malformed_bearer_rejected_witness:
  "fst (ReadBearer demoLib [] (demoBearerRequest (Some ''Bearer !!!'') None)) = - 1
   \<and> (\<exists>ctx. Upload demoUtils demoLib demoUploader (demoBearerRequest (Some ''Bearer !!!'') None)
              = Inr ctx \<and> rejectedAtBearer ctx)
   \<and> (\<exists>e. StoreBearerToken demoLib (demoBearerRequest (Some ''Bearer !!!'') None) = Inl e)
   \<and> StoreBearerToken demoLib (demoBearerRequest (Some ''Bearer !!!'') (Some ''CgA=''))
       = Inr (Some \<lparr>Issuer = []\<rparr>)"
proof -
  let ?c1 = "demoBearerRequest (Some ''Bearer !!!'') None"
  let ?c2 = "demoBearerRequest (Some ''Bearer !!!'') (Some ''CgA='')"
  have cid: "ParseCID demoLib (cidValue ?c1)"
    by code_simp
  have b: "b64Bearer ?c1 = Some ''!!!''"
    by code_simp
  have bad: "DecodeBase64 demoLib ''!!!'' = None"
    by code_simp
  have h1: "BearerTokenFromHeader ?c1 = Some ''!!!''" "BearerTokenFromCookie ?c1 = None"
    by code_simp+
  have h2: "BearerTokenFromHeader ?c2 = Some ''!!!''" "BearerTokenFromCookie ?c2 = Some ''CgA=''"
    by code_simp+
  have t: "tokenOf demoLib ''!!!'' = None" "tokenOf demoLib ''CgA='' = Some \<lparr>Issuer = []\<rparr>"
    by code_simp+
  note A = malformed_bearer_rejected [where L = demoLib and c = ?c1 and b = "''!!!''"
      and dst = "[]" and U = demoUtils and x = demoUploader, THEN conjunct1, THEN mp]
  note B = malformed_bearer_rejected [where L = demoLib and c = ?c1,
      THEN conjunct2, THEN conjunct1, THEN mp]
  note C = malformed_bearer_rejected [where L = demoLib and c = ?c2 and w = "''CgA=''"
      and t = "\<lparr>Issuer = []\<rparr>", THEN conjunct2, THEN conjunct2, THEN mp]
  have a: "fst (ReadBearer demoLib [] ?c1) = - 1
      \<and> (\<exists>ctx. Upload demoUtils demoLib demoUploader ?c1 = Inr ctx \<and> rejectedAtBearer ctx)"
    using A cid b bad by blast
  have b': "\<exists>e. StoreBearerToken demoLib ?c1 = Inl e"
    using B h1 t by blast
  have c': "StoreBearerToken demoLib ?c2 = Inr (Some \<lparr>Issuer = []\<rparr>)"
    using C h2 t by blast
  show ?thesis
    using a b' c' by blast
qed

section \<open>Download: the owner header\<close>



lemma owner_always_awaited: "WaitingOwner (newResRead c)"
  by (simp add: WaitingOwner_def newResRead_def byFile_def)


section \<open>Download: the zip archive\<close>

lemma zipDo_cases:
  "zipDo d zw op = (None, zw') \<Longrightarrow> zw' = zw @ [op]"
  "zipDo d zw op = (Some e, zw') \<Longrightarrow> zw' = zw"
  by (auto simp: zipDo_def split: option.splits)

lemma writeEntries_ok:
  "writeEntries d cnr ids zw = (None, zw') \<Longrightarrow>
     length (fetched d cnr ids) = length ids
     \<and> zw' = zw @ concat (map (entryOps d) (fetched d cnr ids))"
proof (induction ids arbitrary: zw)
  case Nil
  then show ?case by simp
next
  case (Cons i ids)
  from Cons.prems obtain ob where ob: "GetObject d cnr i = Inr ob"
    by (cases "GetObject d cnr i") auto
  let ?z1 = "zw @ [CreateHeader (getFilename ob) (compressionOf d)]"
  let ?z2 = "?z1 @ [Copy (Payload ob)]"
  let ?z3 = "?z2 @ [Flush]"
  from Cons.prems ob have s1: "zipDo d zw (CreateHeader (getFilename ob) (compressionOf d)) = (None, ?z1)"
    by (cases "zipDo d zw (CreateHeader (getFilename ob) (compressionOf d))")
       (auto simp: zipDo_def split: option.splits)
  from Cons.prems ob s1 have s2: "zipDo d ?z1 (Copy (Payload ob)) = (None, ?z2)"
    by (cases "zipDo d ?z1 (Copy (Payload ob))") (auto simp: zipDo_def split: option.splits)
  from Cons.prems ob s1 s2 have s3: "zipDo d ?z2 Flush = (None, ?z3)"
    by (cases "zipDo d ?z2 Flush") (auto simp: zipDo_def split: option.splits)
  from Cons.prems ob s1 s2 s3 have "writeEntries d cnr ids ?z3 = (None, zw')"
    by simp
  from Cons.IH [OF this] ob show ?case
    by (simp add: entryOps_def)
qed

lemma writeEntries_no_close:
  "CloseWriter \<notin> set zw \<Longrightarrow> CloseWriter \<notin> set (snd (writeEntries d cnr ids zw))"
  by (induction ids arbitrary: zw)
     (auto simp: zipDo_def split: sum.splits option.splits prod.splits)

lemma entryNames_append: "entryNames (xs @ ys) = entryNames xs @ entryNames ys"
  by (induction xs rule: entryNames.induct) auto

lemma entryNames_entries:
  "entryNames (concat (map (entryOps d) obs)) = map getFilename obs"
  by (induction obs) (auto simp: entryOps_def)

lemma getFilenameFrom_absent:
  "AttributeFileName \<notin> fst ` set as \<Longrightarrow> getFilenameFrom as = []"
  by (induction as) auto

lemma getFilename_absent:
  "AttributeFileName \<notin> fst ` set (Attributes ob) \<Longrightarrow> getFilename ob = []"
  by (simp add: getFilename_def getFilenameFrom_absent)

lemma fetched_all:
  "length (fetched d cnr ids) = length ids
   \<Longrightarrow> map (GetObject d cnr) ids = map Inr (fetched d cnr ids)"
  by (induction ids) (auto split: sum.splits)

lemma writeEntries_succeeds:
  assumes "\<And>i. i \<in> set ids \<Longrightarrow> \<exists>ob. GetObject d cnr i = Inr ob"
    and "\<And>zw op. zipError d zw op = None"
  shows "fst (writeEntries d cnr ids zw) = None"
  using assms(1)
proof (induction ids arbitrary: zw)
  case Nil
  then show ?case by simp
next
  case (Cons i ids)
  from Cons.prems obtain ob where "GetObject d cnr i = Inr ob"
    by auto
  moreover have "fst (writeEntries d cnr ids zw') = None" for zw'
    using Cons by simp
  ultimately show ?case
    by (simp add: zipDo_def assms(2))
qed

lemma streamFiles_succeeds:
  assumes "\<And>i. i \<in> set ids \<Longrightarrow> \<exists>ob. GetObject d cnr i = Inr ob"
    and "\<And>zw op. zipError d zw op = None"
  shows "fst (streamFiles d cnr ids) = None"
proof -
  obtain r1 zw1 where w: "writeEntries d cnr ids [] = (r1, zw1)"
    by (cases "writeEntries d cnr ids []")
  have "fst (writeEntries d cnr ids []) = None"
    by (rule writeEntries_succeeds) (use assms in auto)
  with w have "r1 = None"
    by simp
  with w show ?thesis
    by (simp add: streamFiles_def zipDo_def assms(2))
qed

text \<open>
  C5: when \<open>streamFiles\<close> returns without an error, every matched object was fetched,
  the archive holds for each of them, in the order of the list, one entry (header, full
  payload, flush) named by \<open>getFilename\<close>, which is the empty string when the object has
  no filename attribute, and it was closed after the last entry; and the archive is
  closed in no other case.
\<close>

theorem zip_one_entry_per_object:
  assumes "streamFiles d cnr ids = (r, zw)"
  shows
    "(r = None \<longrightarrow>
        map (GetObject d cnr) ids = map Inr (fetched d cnr ids)
        \<and> zw = concat (map (entryOps d) (fetched d cnr ids)) @ [CloseWriter]
        \<and> entryNames zw = map getFilename (fetched d cnr ids)
        \<and> length (entryNames zw) = length ids)
     \<and> (CloseWriter \<in> set zw \<longrightarrow> r = None)
     \<and> (\<forall>ob :: Object. AttributeFileName \<notin> fst ` set (Attributes ob) \<longrightarrow> getFilename ob = [])"
proof (intro conjI impI allI)
  assume r: "r = None"
  obtain r1 zw1 where w: "writeEntries d cnr ids [] = (r1, zw1)"
    by (cases "writeEntries d cnr ids []")
  with assms r have r1: "r1 = None"
    by (cases r1) (auto simp: streamFiles_def)
  from writeEntries_ok [of d cnr ids "[]" zw1] w r1
  have len: "length (fetched d cnr ids) = length ids"
    and zw1: "zw1 = concat (map (entryOps d) (fetched d cnr ids))"
    by simp_all
  from assms w r1 r have "zipDo d zw1 CloseWriter = (None, zw)"
    by (simp add: streamFiles_def)
  then have zw: "zw = zw1 @ [CloseWriter]"
    by (rule zipDo_cases)
  show "map (GetObject d cnr) ids = map Inr (fetched d cnr ids)"
    using len by (rule fetched_all)
  show "zw = concat (map (entryOps d) (fetched d cnr ids)) @ [CloseWriter]"
    using zw zw1 by simp
  show names: "entryNames zw = map getFilename (fetched d cnr ids)"
    using zw zw1 by (simp add: entryNames_append entryNames_entries)
  show "length (entryNames zw) = length ids"
    using names len by simp
next
  assume c: "CloseWriter \<in> set zw"
  obtain r1 zw1 where w: "writeEntries d cnr ids [] = (r1, zw1)"
    by (cases "writeEntries d cnr ids []")
  have nc: "CloseWriter \<notin> set zw1"
    using writeEntries_no_close [of "[]" d cnr ids] w by simp
  show "r = None"
  proof (cases r1)
    case None
    with assms w have "zipDo d zw1 CloseWriter = (r, zw)"
      by (simp add: streamFiles_def)
    with nc c show ?thesis
      by (auto simp: zipDo_def split: option.splits)
  next
    case (Some e)
    with assms w have "zw = zw1"
      by (simp add: streamFiles_def)
    with nc c show ?thesis by simp
  qed
next
  fix ob :: Object
  assume "AttributeFileName \<notin> fst ` set (Attributes ob)"
  then show "getFilename ob = []"
    by (rule getFilename_absent)
qed

lemma demo_stream:
  "streamFiles demoDownloader ''cnr'' [''id1'', ''id2''] =
     (None, [CreateHeader ''report1.txt'' Store, Copy ''one'', Flush,
             CreateHeader [] Store, Copy ''two'', Flush, CloseWriter])"
  by code_simp

theorem zip_one_entry_per_object_witness:
  "streamFiles demoDownloader ''cnr'' [''id1'', ''id2''] =
     (None, [CreateHeader ''report1.txt'' Store, Copy ''one'', Flush,
             CreateHeader [] Store, Copy ''two'', Flush, CloseWriter])
   \<and> entryNames [CreateHeader ''report1.txt'' Store, Copy ''one'', Flush,
             CreateHeader [] Store, Copy ''two'', Flush, CloseWriter]
       = map getFilename (fetched demoDownloader ''cnr'' [''id1'', ''id2''])
   \<and> map getFilename (fetched demoDownloader ''cnr'' [''id1'', ''id2'']) = [''report1.txt'', []]"
proof -
  have f: "map getFilename (fetched demoDownloader ''cnr'' [''id1'', ''id2'']) = [''report1.txt'', []]"
    by code_simp
  from zip_one_entry_per_object [OF demo_stream]
  have "entryNames [CreateHeader ''report1.txt'' Store, Copy ''one'', Flush,
             CreateHeader [] Store, Copy ''two'', Flush, CloseWriter]
       = map getFilename (fetched demoDownloader ''cnr'' [''id1'', ''id2''])"
    by blast
  with demo_stream f show ?thesis
    by blast
qed

section \<open>Download: the content-type detector keeps the stream\<close>

lemma cleanStream_tail: "cleanStream (c # cs) \<Longrightarrow> cleanStream cs"
  by (cases c; cases cs) auto

lemma cleanStream_head:
  "cleanStream ((bs, e) # cs) \<Longrightarrow> (e = None \<or> (e = Some EOF \<and> cs = []))"
  by (cases cs) auto

lemma cleanStream_shorten:
  "cleanStream ((bs, e) # cs) \<Longrightarrow> cleanStream ((bs', e) # cs)"
  by (cases cs) auto

lemma scriptRead_clean:
  assumes "cleanStream cs" and "scriptRead cs n = (bs, e, rest)"
  shows "(e = None \<or> (e = Some EOF \<and> rest = [])) \<and> cleanStream rest
         \<and> payloadOf cs = bs @ payloadOf rest \<and> length bs \<le> n"
proof (cases cs)
  case Nil
  with assms show ?thesis by (auto simp: payloadOf_def)
next
  case (Cons c cs')
  obtain b e' where c: "c = (b, e')" by (cases c)
  show ?thesis
  proof (cases "length b \<le> n")
    case True
    with assms Cons c have "bs = b" "e = e'" "rest = cs'"
      by simp_all
    with assms(1) Cons c True show ?thesis
      using cleanStream_head [of b e' cs'] cleanStream_tail [of c cs']
      by (auto simp: payloadOf_def)
  next
    case False
    with assms Cons c have "bs = take n b" "e = None" "rest = (drop n b, e') # cs'"
      by simp_all
    with assms(1) Cons c False show ?thesis
      using cleanStream_shorten [of b e' cs' "drop n b"]
      by (auto simp: payloadOf_def)
  qed
qed

lemma scriptRead_progress:
  assumes "0 < n" and "scriptRead cs n = (bs, None, rest)"
  shows "length rest + length (payloadOf rest) < length cs + length (payloadOf cs)"
proof (cases cs)
  case Nil
  with assms show ?thesis by simp
next
  case (Cons c cs')
  obtain b e' where c: "c = (b, e')" by (cases c)
  show ?thesis
  proof (cases "length b \<le> n")
    case True
    with assms Cons c show ?thesis by (auto simp: payloadOf_def)
  next
    case False
    with assms Cons c show ?thesis by (auto simp: payloadOf_def)
  qed
qed

lemma readAll_script:
  assumes "0 < n"
  shows "cleanStream cs \<Longrightarrow> readAll scriptRead n cs acc = Some (acc @ payloadOf cs, None)"
proof (induction "length cs + length (payloadOf cs)" arbitrary: cs acc rule: less_induct)
  case less
  obtain bs e rest where r: "scriptRead cs n = (bs, e, rest)"
    by (cases "scriptRead cs n")
  note cl = scriptRead_clean [OF less.prems r]
  show ?case
  proof (cases e)
    case None
    with r assms have "length rest + length (payloadOf rest) < length cs + length (payloadOf cs)"
      by (simp add: scriptRead_progress)
    from less.hyps [OF this, of "acc @ bs"] cl
    have "readAll scriptRead n rest (acc @ bs) = Some (acc @ payloadOf cs, None)"
      by simp
    with r None show ?thesis
      by (subst readAll.simps) simp
  next
    case (Some x)
    with cl have "x = EOF" "rest = []" by auto
    with cl r Some show ?thesis
      by (subst readAll.simps) (simp add: payloadOf_def)
  qed
qed

lemma readAll_multi_nil: "readAll multiRead n [] acc = Some (acc, None)"
  by (subst readAll.simps) simp

lemma multiRead_src:
  assumes "cleanStream cs" and "scriptRead cs n = (bs, e, rest)"
  shows "multiRead [SrcR cs] n =
           (if e = None then (bs, None, [SrcR rest]) else (bs, Some EOF, []))"
  using scriptRead_clean [OF assms] assms(2) by auto

lemma readAll_multi_src:
  assumes "0 < n"
  shows "cleanStream cs \<Longrightarrow> readAll multiRead n [SrcR cs] acc = Some (acc @ payloadOf cs, None)"
proof (induction "length cs + length (payloadOf cs)" arbitrary: cs acc rule: less_induct)
  case less
  obtain bs e rest where r: "scriptRead cs n = (bs, e, rest)"
    by (cases "scriptRead cs n")
  note cl = scriptRead_clean [OF less.prems r]
  note m = multiRead_src [OF less.prems r]
  show ?case
  proof (cases e)
    case None
    with r assms have "length rest + length (payloadOf rest) < length cs + length (payloadOf cs)"
      by (simp add: scriptRead_progress)
    from less.hyps [OF this, of "acc @ bs"] cl
    have "readAll multiRead n [SrcR rest] (acc @ bs) = Some (acc @ payloadOf cs, None)"
      by simp
    with m None show ?thesis
      by (subst readAll.simps) simp
  next
    case (Some x)
    with cl have "rest = []" by auto
    with cl m Some show ?thesis
      by (subst readAll.simps) (simp add: payloadOf_def)
  qed
qed

lemma multiRead_err_done:
  "erOffset r \<ge> length (erData r) \<Longrightarrow> multiRead (ErrR r # rs) n = multiRead rs n"
  by (simp add: errRead_def)

lemma multiRead_err_step:
  assumes "erOffset r < length (erData r)" and "0 < n" and "erErr r = None"
  shows "multiRead (ErrR r # rs) n =
           (take n (drop (erOffset r) (erData r)), None,
            ErrR (r\<lparr>erOffset := erOffset r + length (take n (drop (erOffset r) (erData r)))\<rparr>) # rs)"
  using assms by (simp add: errRead_def Let_def)

lemma readAll_cong_step:
  "rd r n = rd r' n \<Longrightarrow> readAll rd n r acc = readAll rd n r' acc"
  by (subst readAll.simps, subst (2) readAll.simps) simp

lemma take_then_rest: "take n ys @ drop (length (take n ys)) ys = ys"
proof (cases "n \<le> length ys")
  case True
  then show ?thesis by (simp add: min_def)
next
  case False
  then show ?thesis by simp
qed

lemma take_drop_offset:
  "take n (drop k xs) @ drop (k + length (take n (drop k xs))) xs = drop k xs"
proof -
  have "drop (k + length (take n (drop k xs))) xs
      = drop (length (take n (drop k xs))) (drop k xs)"
    by (simp only: drop_drop add.commute)
  then show ?thesis
    by (simp only: take_then_rest)
qed

lemma readAll_multi_err:
  assumes "0 < n" and "cleanStream cs"
  shows "erErr r = None \<Longrightarrow>
         readAll multiRead n [ErrR r, SrcR cs] acc
           = Some (acc @ drop (erOffset r) (erData r) @ payloadOf cs, None)"
proof (induction "length (erData r) - erOffset r" arbitrary: r acc rule: less_induct)
  case less
  show ?case
  proof (cases "erOffset r \<ge> length (erData r)")
    case True
    then have "readAll multiRead n [ErrR r, SrcR cs] acc = readAll multiRead n [SrcR cs] acc"
      by (intro readAll_cong_step multiRead_err_done)
    with True assms show ?thesis
      by (simp add: readAll_multi_src)
  next
    case False
    let ?bs = "take n (drop (erOffset r) (erData r))"
    let ?r1 = "r\<lparr>erOffset := erOffset r + length ?bs\<rparr>"
    from False assms(1) have pos: "0 < length ?bs"
      by simp
    have step: "multiRead [ErrR r, SrcR cs] n = (?bs, None, [ErrR ?r1, SrcR cs])"
      by (rule multiRead_err_step) (use False assms(1) less.prems in auto)
    have "length (erData ?r1) - erOffset ?r1 < length (erData r) - erOffset r"
      using False pos by simp
    from less.hyps [OF this, of "acc @ ?bs"] less.prems
    have "readAll multiRead n [ErrR ?r1, SrcR cs] (acc @ ?bs)
        = Some (acc @ ?bs @ drop (erOffset r + length ?bs) (erData r) @ payloadOf cs, None)"
      by simp
    moreover have "?bs @ drop (erOffset r + length ?bs) (erData r) = drop (erOffset r) (erData r)"
      by (rule take_drop_offset)
    ultimately show ?thesis
      using step by (subst readAll.simps) (simp del: take_drop drop_drop)
  qed
qed

lemma Detect_clean:
  assumes "cleanStream cs" and "scriptRead cs contentTypeDetectSize = (bs, e, rest)"
  shows "Detect L (SetReader newDetector cs) =
           \<lparr>Reader = rest, detErr = None, contentType = DetectContentType L bs,
            detDone = True, detData = bs\<rparr>"
proof -
  from scriptRead_clean [OF assms] have "e = None \<or> e = Some EOF"
    by auto
  then show ?thesis
    using assms(2) by (auto simp: Detect_def SetReader_def newDetector_def Let_def)
qed

text \<open>
  C6: on every stream that ends without a read error, whatever the sizes of its reads
  and of the consumer's buffer, the detector completes with the bytes of its one read
  (at most 512, a prefix of the payload) and the reader it hands on yields the same
  bytes as the original stream: the whole payload, then the end of the stream.
\<close>

theorem sniffer_reconstructs_stream:
  assumes "cleanStream cs" and "0 < n"
  shows "readAll scriptRead n cs [] = Some (payloadOf cs, None)
     \<and> readAll multiRead n (MultiReader (Detect L (SetReader newDetector cs))) []
         = Some (payloadOf cs, None)
     \<and> detDone (Detect L (SetReader newDetector cs))
     \<and> detErr (Detect L (SetReader newDetector cs)) = None
     \<and> contentType (Detect L (SetReader newDetector cs))
         = DetectContentType L (detData (Detect L (SetReader newDetector cs)))
     \<and> length (detData (Detect L (SetReader newDetector cs))) \<le> contentTypeDetectSize
     \<and> detData (Detect L (SetReader newDetector cs))
           @ payloadOf (Reader (Detect L (SetReader newDetector cs))) = payloadOf cs"
proof -
  obtain bs e rest where r: "scriptRead cs contentTypeDetectSize = (bs, e, rest)"
    by (cases "scriptRead cs contentTypeDetectSize")
  note cl = scriptRead_clean [OF assms(1) r]
  note d = Detect_clean [OF assms(1) r, of L]
  have m: "MultiReader (Detect L (SetReader newDetector cs))
      = [ErrR \<lparr>erData = bs, erErr = None, erOffset = 0\<rparr>, SrcR rest]"
    by (simp add: d MultiReader_def newReader_def)
  have "readAll multiRead n [ErrR \<lparr>erData = bs, erErr = None, erOffset = 0\<rparr>, SrcR rest] []
      = Some ([] @ drop (erOffset \<lparr>erData = bs, erErr = None, erOffset = 0\<rparr>)
                    (erData \<lparr>erData = bs, erErr = None, erOffset = 0\<rparr>) @ payloadOf rest, None)"
    by (rule readAll_multi_err) (use assms cl in auto)
  then have "readAll multiRead n (MultiReader (Detect L (SetReader newDetector cs))) []
      = Some (payloadOf cs, None)"
    using cl by (simp add: m)
  moreover have "readAll scriptRead n cs [] = Some (payloadOf cs, None)"
    using readAll_script [OF assms(2) assms(1), of "[]"] by simp
  ultimately show ?thesis
    using cl by (simp add: d)
qed

theorem sniffer_reconstructs_stream_witness:
  "cleanStream demoStream
   \<and> readAll multiRead 4 (MultiReader (Detect demoLib (SetReader newDetector demoStream))) []
       = Some (''hello world'', None)
   \<and> detData (Detect demoLib (SetReader newDetector demoStream)) = ''hello ''
   \<and> detDone (Detect demoLib (SetReader newDetector demoStream))"
proof -
  have c: "cleanStream demoStream"
    by (simp add: demoStream_def)
  have p: "payloadOf demoStream = ''hello world''"
    by (simp add: demoStream_def payloadOf_def)
  have r: "scriptRead demoStream contentTypeDetectSize = (''hello '', None, [(''world'', Some EOF)])"
    by (simp add: demoStream_def contentTypeDetectSize_def)
  have d: "detData (Detect demoLib (SetReader newDetector demoStream)) = ''hello ''"
    by (simp add: Detect_clean [OF c r])
  from sniffer_reconstructs_stream [OF c, of 4 demoLib] c p d show ?thesis
    by simp
qed

end
